theory Spec2Isabelle
  imports Main
begin

section \<open>The configuration tree\<close>

text \<open>
  \<^verbatim>\<open>FrontdoorSettings\<close> (validate.go, lines 37-180) reads the resource through
  \<^verbatim>\<open>d.Get\<close>, which hands back values of type \<^verbatim>\<open>interface{}\<close>. The dynamic types
  that occur in this resource are the nil interface, \<^verbatim>\<open>string\<close>, \<^verbatim>\<open>bool\<close>,
  \<^verbatim>\<open>[]interface{}\<close> and \<^verbatim>\<open>map[string]interface{}\<close>. A map is kept as an association
  list; indexing reads the first binding of a key.
\<close>

datatype val =
    VNil
  | VString string
  | VBool bool
  | VList "val list"
  | VMap "(string \<times> val) list"

text \<open>The Go runtime panics the function can raise.\<close>

datatype panic =
    InterfaceConversion  \<comment> \<open>a failed single-value type assertion \<^verbatim>\<open>x.(T)\<close>\<close>
  | UncomparableType     \<comment> \<open>\<^verbatim>\<open>==\<close> on two interfaces that both hold a slice or both a map\<close>

text \<open>\<^verbatim>\<open>m[k]\<close> on a \<^verbatim>\<open>map[string]interface{}\<close>: a missing key yields the nil interface.\<close>

definition index :: "(string \<times> val) list \<Rightarrow> string \<Rightarrow> val" where
  "index m k = (case map_of m k of Some v \<Rightarrow> v | None \<Rightarrow> VNil)"

text \<open>\<^verbatim>\<open>len(m)\<close> on a map: the number of its keys.\<close>

definition len_map :: "(string \<times> val) list \<Rightarrow> nat" where
  "len_map m = length (remdups (map fst m))"

text \<open>The type assertions \<^verbatim>\<open>x.([]interface{})\<close>, \<^verbatim>\<open>x.(map[string]interface{})\<close>,
  \<^verbatim>\<open>x.(string)\<close> and \<^verbatim>\<open>x.(bool)\<close>.\<close>

fun asList :: "val \<Rightarrow> panic + val list" where
  "asList (VList xs) = Inr xs"
| "asList _ = Inl InterfaceConversion"

fun asMap :: "val \<Rightarrow> panic + (string \<times> val) list" where
  "asMap (VMap m) = Inr m"
| "asMap _ = Inl InterfaceConversion"

fun asString :: "val \<Rightarrow> panic + string" where
  "asString (VString s) = Inr s"
| "asString _ = Inl InterfaceConversion"

fun asBool :: "val \<Rightarrow> panic + bool" where
  "asBool (VBool b) = Inr b"
| "asBool _ = Inl InterfaceConversion"

fun isList :: "val \<Rightarrow> bool" where
  "isList (VList xs) = True"
| "isList _ = False"

fun isMap :: "val \<Rightarrow> bool" where
  "isMap (VMap m) = True"
| "isMap _ = False"

fun isString :: "val \<Rightarrow> bool" where
  "isString (VString s) = True"
| "isString _ = False"

fun isBool :: "val \<Rightarrow> bool" where
  "isBool (VBool b) = True"
| "isBool _ = False"

text \<open>\<^verbatim>\<open>a == b\<close> on two interface values: a run-time panic when both hold the same
  uncomparable type, otherwise equality of dynamic type and value.\<close>

definition ifaceEq :: "val \<Rightarrow> val \<Rightarrow> panic + bool" where
  "ifaceEq a b =
     (if (isList a \<and> isList b) \<or> (isMap a \<and> isMap b) then Inl UncomparableType
      else Inr (a = b))"

text \<open>The field of an entry of a collection, for stating properties: the entry's map
  indexed at the key (nil when the entry is no map).\<close>

definition field :: "val \<Rightarrow> string \<Rightarrow> val" where
  "field v k = (case v of VMap m \<Rightarrow> index m k | _ \<Rightarrow> VNil)"

text \<open>\<^verbatim>\<open>*schema.ResourceDiff\<close> belongs to the Terraform SDK; only its \<^verbatim>\<open>Get\<close> is used.
  The resource is kept as the root mapping of the tree.\<close>

type_synonym ResourceDiff = "(string \<times> val) list"

definition Get :: "ResourceDiff \<Rightarrow> string \<Rightarrow> val" where
  "Get d k = index d k"

section \<open>Errors\<close>

text \<open>The error that \<^verbatim>\<open>helper.DoesBackendPoolExists\<close> returns when the lookup fails.\<close>

datatype helper_error = BackendPoolNotFound string

text \<open>One constructor for each \<^verbatim>\<open>fmt.Errorf\<close> of \<^verbatim>\<open>FrontdoorSettings\<close>, carrying the
  arguments the message interpolates (names read without a type assertion stay
  \<^verbatim>\<open>interface{}\<close> values).\<close>

datatype error =
    NoFrontendEndpoint                          \<comment> \<open>line 45\<close>
  | RoutingRuleNoConfiguration val              \<comment> \<open>line 59\<close>
  | RoutingRuleConflictingConfiguration val     \<comment> \<open>line 64\<close>
  | RoutingRuleBackendPool val helper_error     \<comment> \<open>line 71\<close>
  | RoutingRuleFrontendNotFound val string      \<comment> \<open>line 98\<close>
  | RoutingRuleNoFrontends val                  \<comment> \<open>line 102\<close>
  | BackendPoolLoadBalancingNotFound val val    \<comment> \<open>line 127\<close>
  | BackendPoolHealthProbeNotFound val val      \<comment> \<open>line 146\<close>
  | CustomHttpsNotEnabled val                   \<comment> \<open>line 159\<close>
  | KeyVaultValuesRequired val                  \<comment> \<open>line 166\<close>
  | KeyVaultValuesForbidden val                 \<comment> \<open>line 170\<close>
  | CustomHttpsUndefined val                    \<comment> \<open>line 174\<close>

text \<open>The specification's taxonomy of violations (section 7), and the kind of each
  message of the code.\<close>

datatype kind =
    MissingRequiredCollection
  | MissingConfigurationBlock
  | ConflictingConfigurationBlocks
  | DanglingReference
  | InvalidTlsState
  | IncompleteTlsConfig
  | ExtraneousTlsConfig

fun kind_of :: "error \<Rightarrow> kind" where
  "kind_of NoFrontendEndpoint = MissingRequiredCollection"
| "kind_of (RoutingRuleNoConfiguration n) = MissingConfigurationBlock"
| "kind_of (RoutingRuleConflictingConfiguration n) = ConflictingConfigurationBlocks"
| "kind_of (RoutingRuleBackendPool n e) = DanglingReference"
| "kind_of (RoutingRuleFrontendNotFound n f) = DanglingReference"
| "kind_of (RoutingRuleNoFrontends n) = MissingRequiredCollection"
| "kind_of (BackendPoolLoadBalancingNotFound n l) = DanglingReference"
| "kind_of (BackendPoolHealthProbeNotFound n h) = DanglingReference"
| "kind_of (CustomHttpsNotEnabled n) = InvalidTlsState"
| "kind_of (KeyVaultValuesRequired n) = IncompleteTlsConfig"
| "kind_of (KeyVaultValuesForbidden n) = ExtraneousTlsConfig"
| "kind_of (CustomHttpsUndefined n) = MissingConfigurationBlock"

text \<open>The result of a run: \<open>Inl\<close> a panic, \<open>Inr None\<close> for \<^verbatim>\<open>return nil\<close>,
  \<open>Inr (Some e)\<close> for a returned error.\<close>

type_synonym result = "panic + error option"

section \<open>The helpers of package \<^verbatim>\<open>helper\<close>\<close>

text \<open>
  Modelled from the spec: \<^verbatim>\<open>helper.DoesBackendPoolExists\<close>, whose package is not among
  the sources. The specification describes it as the name-lookup helper (does a named
  reference exist in a given collection), resolving \<^verbatim>\<open>backend_pool_name\<close> against the
  backend-pool collection by exact, case-sensitive match in a single linear scan.
\<close>

fun DoesBackendPoolExists :: "string \<Rightarrow> val list \<Rightarrow> helper_error option" where
  "DoesBackendPoolExists backendPoolName [] = Some (BackendPoolNotFound backendPoolName)"
| "DoesBackendPoolExists backendPoolName (bps # rest) =
     (if field bps ''name'' = VString backendPoolName then None
      else DoesBackendPoolExists backendPoolName rest)"

text \<open>
  Modelled from the spec: \<^verbatim>\<open>helper.AzureKeyVaultCertificateHasValues\<close>, of the same
  package. The specification describes it as the predicate whether the three key-vault
  fields are populated: with the flag set, whether all three are non-empty; with the flag
  clear, whether any of them is.
\<close>

definition populated :: "val \<Rightarrow> bool" where
  "populated v = (case v of VString s \<Rightarrow> s \<noteq> [] | _ \<Rightarrow> False)"

definition AzureKeyVaultCertificateHasValues :: "(string \<times> val) list \<Rightarrow> bool \<Rightarrow> bool" where
  "AzureKeyVaultCertificateHasValues customHttpsConfiguration MatchAllKeys =
     (let certificateSecretName = index customHttpsConfiguration ''azure_key_vault_certificate_secret_name'';
          certificateSecretVersion = index customHttpsConfiguration ''azure_key_vault_certificate_secret_version'';
          certificateVaultId = index customHttpsConfiguration ''azure_key_vault_certificate_vault_id''
      in if MatchAllKeys
         then populated certificateSecretName \<and> populated certificateSecretVersion \<and> populated certificateVaultId
         else populated certificateSecretName \<or> populated certificateSecretVersion \<or> populated certificateVaultId)"

text \<open>\<^verbatim>\<open>frontdoor.CertificateSourceAzureKeyVault\<close> is a constant of the Azure SDK; its
  value is the one the specification gives.\<close>

definition CertificateSourceAzureKeyVault :: string where
  "CertificateSourceAzureKeyVault = ''AzureKeyVault''"

section \<open>\<^verbatim>\<open>FrontdoorSettings\<close>\<close>

text \<open>A \<^verbatim>\<open>for ... range\<close> loop whose body may return: the first panic or error of a body
  ends the function, otherwise the loop goes on to the next element.\<close>

fun forEach :: "('a \<Rightarrow> result) \<Rightarrow> 'a list \<Rightarrow> result" where
  "forEach body [] = Inr None"
| "forEach body (x # xs) =
     (case body x of
        Inl p \<Rightarrow> Inl p
      | Inr (Some e) \<Rightarrow> Inr (Some e)
      | Inr None \<Rightarrow> forEach body xs)"

text \<open>Lines 88-95: the scan of the configured frontend endpoints for one name, leaving
  at the first match.\<close>

fun frontendFound :: "string \<Rightarrow> val list \<Rightarrow> panic + bool" where
  "frontendFound routingRulefrontendName [] = Inr False"
| "frontendFound routingRulefrontendName (configFrontendEndpoint # rest) =
     (case asMap configFrontendEndpoint of
        Inl p \<Rightarrow> Inl p
      | Inr configFrontend \<Rightarrow>
          if VString routingRulefrontendName = index configFrontend ''name'' then Inr True
          else frontendFound routingRulefrontendName rest)"

text \<open>Lines 78-100: the body of the loop over the rule's \<^verbatim>\<open>frontend_endpoints\<close>.\<close>

definition checkRoutingRuleFrontend :: "val \<Rightarrow> val list \<Rightarrow> val \<Rightarrow> result" where
  "checkRoutingRuleFrontend routingRuleName configFrontendEndpoints routingRuleFrontend =
     (case asString routingRuleFrontend of
        Inl p \<Rightarrow> Inl p
      | Inr routingRulefrontendName \<Rightarrow>
          (case frontendFound routingRulefrontendName configFrontendEndpoints of
             Inl p \<Rightarrow> Inl p
           | Inr found \<Rightarrow>
               if \<not> found
               then Inr (Some (RoutingRuleFrontendNotFound routingRuleName routingRulefrontendName))
               else Inr None))"

text \<open>Lines 68-73, check 2. The test \<^verbatim>\<open>len(forwardConfig) > 0\<close> and the read of
  \<^verbatim>\<open>forwardConfig[0]\<close> are the case distinction on the list.\<close>

definition checkForwarding :: "val \<Rightarrow> val list \<Rightarrow> val list \<Rightarrow> result" where
  "checkForwarding routingRuleName backendPools forwardConfig =
     (case forwardConfig of
        [] \<Rightarrow> Inr None
      | fc0 # _ \<Rightarrow>
          (case asMap fc0 of
             Inl p \<Rightarrow> Inl p
           | Inr fc \<Rightarrow>
               (case asString (index fc ''backend_pool_name'') of
                  Inl p \<Rightarrow> Inl p
                | Inr backendPoolName \<Rightarrow>
                    (case DoesBackendPoolExists backendPoolName backendPools of
                       Some err \<Rightarrow> Inr (Some (RoutingRuleBackendPool routingRuleName err))
                     | None \<Rightarrow> Inr None))))"

text \<open>Lines 50-103: the body of the loop over the routing rules.\<close>

definition checkRoutingRule :: "val list \<Rightarrow> val list \<Rightarrow> val \<Rightarrow> result" where
  "checkRoutingRule configFrontendEndpoints backendPools rr =
     (case asMap rr of
        Inl p \<Rightarrow> Inl p
      | Inr routingRule \<Rightarrow>
     let routingRuleName = index routingRule ''name'' in
     (case asList (index routingRule ''redirect_configuration'') of
        Inl p \<Rightarrow> Inl p
      | Inr redirectConfig \<Rightarrow>
     (case asList (index routingRule ''forwarding_configuration'') of
        Inl p \<Rightarrow> Inl p
      | Inr forwardConfig \<Rightarrow>
     if length redirectConfig = 0 \<and> length forwardConfig = 0
     then Inr (Some (RoutingRuleNoConfiguration routingRuleName))
     else if length redirectConfig = 1 \<and> length forwardConfig = 1
     then Inr (Some (RoutingRuleConflictingConfiguration routingRuleName))
     else
     (case checkForwarding routingRuleName backendPools forwardConfig of
        Inl p \<Rightarrow> Inl p
      | Inr (Some e) \<Rightarrow> Inr (Some e)
      | Inr None \<Rightarrow>
     (case asList (index routingRule ''frontend_endpoints'') of
        Inl p \<Rightarrow> Inl p
      | Inr routingRuleFrontends \<Rightarrow>
     if length routingRuleFrontends > 0
     then forEach (checkRoutingRuleFrontend routingRuleName configFrontendEndpoints)
            routingRuleFrontends
     else Inr (Some (RoutingRuleNoFrontends routingRuleName)))))))"

text \<open>Lines 116-124 and 135-143: the scan of a settings collection for the name a
  backend pool refers to, leaving at the first match. Both sides of the comparison are
  interface values.\<close>

fun settingsFound :: "val \<Rightarrow> val list \<Rightarrow> panic + bool" where
  "settingsFound wanted [] = Inr False"
| "settingsFound wanted (s # rest) =
     (case asMap s of
        Inl p \<Rightarrow> Inl p
      | Inr settings \<Rightarrow>
          (case ifaceEq (index settings ''name'') wanted of
             Inl p \<Rightarrow> Inl p
           | Inr eq \<Rightarrow> if eq then Inr True else settingsFound wanted rest))"

text \<open>Lines 108-148: the body of the loop over the backend pools. The flag \<^verbatim>\<open>found\<close>
  is reset before each scan, so each scan yields its own flag.\<close>

definition checkLoadBalancing :: "val \<Rightarrow> val \<Rightarrow> val list \<Rightarrow> result" where
  "checkLoadBalancing backendPoolName backendPoolLoadBalancingName loadBalancingSettings =
     (if length loadBalancingSettings > 0
      then (case settingsFound backendPoolLoadBalancingName loadBalancingSettings of
              Inl p \<Rightarrow> Inl p
            | Inr found \<Rightarrow>
                if \<not> found
                then Inr (Some (BackendPoolLoadBalancingNotFound backendPoolName
                                  backendPoolLoadBalancingName))
                else Inr None)
      else Inr None)"

definition checkHealthProbe :: "val \<Rightarrow> val \<Rightarrow> val list \<Rightarrow> result" where
  "checkHealthProbe backendPoolName backendPoolHealthProbeName healthProbeSettings =
     (if length healthProbeSettings > 0
      then (case settingsFound backendPoolHealthProbeName healthProbeSettings of
              Inl p \<Rightarrow> Inl p
            | Inr found \<Rightarrow>
                if \<not> found
                then Inr (Some (BackendPoolHealthProbeNotFound backendPoolName
                                  backendPoolHealthProbeName))
                else Inr None)
      else Inr None)"

definition checkBackendPool :: "val list \<Rightarrow> val list \<Rightarrow> val \<Rightarrow> result" where
  "checkBackendPool loadBalancingSettings healthProbeSettings bps =
     (case asMap bps of
        Inl p \<Rightarrow> Inl p
      | Inr backendPool \<Rightarrow>
     let backendPoolName = index backendPool ''name'';
         backendPoolLoadBalancingName = index backendPool ''load_balancing_name'';
         backendPoolHealthProbeName = index backendPool ''health_probe_name''
     in
     (case checkLoadBalancing backendPoolName backendPoolLoadBalancingName loadBalancingSettings of
        Inl p \<Rightarrow> Inl p
      | Inr (Some e) \<Rightarrow> Inr (Some e)
      | Inr None \<Rightarrow>
          checkHealthProbe backendPoolName backendPoolHealthProbeName healthProbeSettings))"

text \<open>Lines 153-176: the body of the loop over the frontend endpoints. The test
  \<^verbatim>\<open>len(chc) > 0\<close> and the read of \<^verbatim>\<open>chc[0]\<close> are the case distinction on the list.\<close>

definition checkCustomHttps :: "val \<Rightarrow> val \<Rightarrow> result" where
  "checkCustomHttps FrontendName chc0 =
     (case asMap chc0 of
        Inl p \<Rightarrow> Inl p
      | Inr customHttpsConfiguration \<Rightarrow>
     let certificateSource = index customHttpsConfiguration ''certificate_source'' in
     if certificateSource = VString CertificateSourceAzureKeyVault
     then (if \<not> AzureKeyVaultCertificateHasValues customHttpsConfiguration True
           then Inr (Some (KeyVaultValuesRequired FrontendName))
           else Inr None)
     else (if AzureKeyVaultCertificateHasValues customHttpsConfiguration False
           then Inr (Some (KeyVaultValuesForbidden FrontendName))
           else Inr None))"

definition checkFrontendEndpoint :: "val \<Rightarrow> result" where
  "checkFrontendEndpoint configFrontendEndpoint =
     (case asMap configFrontendEndpoint of
        Inl p \<Rightarrow> Inl p
      | Inr configFrontend \<Rightarrow>
     if len_map configFrontend > 0
     then
       let FrontendName = index configFrontend ''name'' in
       (case asBool (index configFrontend ''custom_https_provisioning_enabled'') of
          Inl p \<Rightarrow> Inl p
        | Inr customHttpsEnabled \<Rightarrow>
       (case asList (index configFrontend ''custom_https_configuration'') of
          Inl p \<Rightarrow> Inl p
        | Inr chc \<Rightarrow>
       (case chc of
          chc0 # _ \<Rightarrow>
            if \<not> customHttpsEnabled then Inr (Some (CustomHttpsNotEnabled FrontendName))
            else checkCustomHttps FrontendName chc0
        | [] \<Rightarrow>
            if customHttpsEnabled then Inr (Some (CustomHttpsUndefined FrontendName))
            else Inr None)))
     else Inr None)"

text \<open>Lines 37-180.\<close>

definition FrontdoorSettings :: "ResourceDiff \<Rightarrow> result" where
  "FrontdoorSettings d =
     (case asList (Get d ''routing_rule'') of
        Inl p \<Rightarrow> Inl p
      | Inr routingRules \<Rightarrow>
     (case asList (Get d ''frontend_endpoint'') of
        Inl p \<Rightarrow> Inl p
      | Inr configFrontendEndpoints \<Rightarrow>
     (case asList (Get d ''backend_pool'') of
        Inl p \<Rightarrow> Inl p
      | Inr backendPools \<Rightarrow>
     (case asList (Get d ''backend_pool_load_balancing'') of
        Inl p \<Rightarrow> Inl p
      | Inr loadBalancingSettings \<Rightarrow>
     (case asList (Get d ''backend_pool_health_probe'') of
        Inl p \<Rightarrow> Inl p
      | Inr healthProbeSettings \<Rightarrow>
     if length configFrontendEndpoints = 0 then Inr (Some NoFrontendEndpoint)
     else
     (case forEach (checkRoutingRule configFrontendEndpoints backendPools) routingRules of
        Inl p \<Rightarrow> Inl p
      | Inr (Some e) \<Rightarrow> Inr (Some e)
      | Inr None \<Rightarrow>
     (case forEach (checkBackendPool loadBalancingSettings healthProbeSettings) backendPools of
        Inl p \<Rightarrow> Inl p
      | Inr (Some e) \<Rightarrow> Inr (Some e)
      | Inr None \<Rightarrow>
          forEach checkFrontendEndpoint configFrontendEndpoints)))))))"

section \<open>The shape of the tree\<close>

text \<open>
  The schema layer hands over every attribute of a block under its key, with the
  attribute's type; an attribute or block the user left out arrives as the zero value
  (the empty string, \<^verbatim>\<open>false\<close>, the empty list). A nested block is a list of maps,
  empty when the block is absent.
\<close>

definition listOf :: "(val \<Rightarrow> bool) \<Rightarrow> val \<Rightarrow> bool" where
  "listOf P v = (case v of VList xs \<Rightarrow> list_all P xs | _ \<Rightarrow> False)"

definition wfForwardingConfiguration :: "val \<Rightarrow> bool" where
  "wfForwardingConfiguration v = (isMap v \<and> isString (field v ''backend_pool_name''))"

definition wfRoutingRule :: "val \<Rightarrow> bool" where
  "wfRoutingRule v =
     (isMap v \<and> isString (field v ''name'')
      \<and> listOf isString (field v ''frontend_endpoints'')
      \<and> listOf isMap (field v ''redirect_configuration'')
      \<and> listOf wfForwardingConfiguration (field v ''forwarding_configuration''))"

definition wfBackendPool :: "val \<Rightarrow> bool" where
  "wfBackendPool v =
     (isMap v \<and> isString (field v ''name'')
      \<and> isString (field v ''load_balancing_name'')
      \<and> isString (field v ''health_probe_name''))"

definition wfSettings :: "val \<Rightarrow> bool" where
  "wfSettings v = (isMap v \<and> isString (field v ''name''))"

definition wfCustomHttpsConfiguration :: "val \<Rightarrow> bool" where
  "wfCustomHttpsConfiguration v =
     (isMap v \<and> isString (field v ''certificate_source'')
      \<and> isString (field v ''azure_key_vault_certificate_secret_name'')
      \<and> isString (field v ''azure_key_vault_certificate_secret_version'')
      \<and> isString (field v ''azure_key_vault_certificate_vault_id''))"

definition wfFrontendEndpoint :: "val \<Rightarrow> bool" where
  "wfFrontendEndpoint v =
     (isMap v \<and> isString (field v ''name'')
      \<and> isBool (field v ''custom_https_provisioning_enabled'')
      \<and> listOf wfCustomHttpsConfiguration (field v ''custom_https_configuration''))"

definition wfConfig :: "ResourceDiff \<Rightarrow> bool" where
  "wfConfig d =
     (listOf wfRoutingRule (Get d ''routing_rule'')
      \<and> listOf wfFrontendEndpoint (Get d ''frontend_endpoint'')
      \<and> listOf wfBackendPool (Get d ''backend_pool'')
      \<and> listOf wfSettings (Get d ''backend_pool_load_balancing'')
      \<and> listOf wfSettings (Get d ''backend_pool_health_probe''))"

text \<open>The five collections \<^verbatim>\<open>FrontdoorSettings\<close> reads, named.\<close>

definition sections :: "ResourceDiff \<Rightarrow> val list \<Rightarrow> val list \<Rightarrow> val list \<Rightarrow> val list \<Rightarrow> val list \<Rightarrow> bool" where
  "sections d routingRules configFrontendEndpoints backendPools loadBalancingSettings healthProbeSettings =
     (Get d ''routing_rule'' = VList routingRules
      \<and> Get d ''frontend_endpoint'' = VList configFrontendEndpoints
      \<and> Get d ''backend_pool'' = VList backendPools
      \<and> Get d ''backend_pool_load_balancing'' = VList loadBalancingSettings
      \<and> Get d ''backend_pool_health_probe'' = VList healthProbeSettings)"

text \<open>The names a collection offers to references.\<close>

definition names :: "val list \<Rightarrow> val set" where
  "names collection = (\<lambda>entry. field entry ''name'') ` set collection"

section \<open>When an entry is in order\<close>





section \<open>Building trees\<close>

text \<open>Constructors for the trees of the examples, with every key of a block present.\<close>

definition mkConfig :: "val list \<Rightarrow> val list \<Rightarrow> val list \<Rightarrow> val list \<Rightarrow> val list \<Rightarrow> ResourceDiff" where
  "mkConfig routingRules configFrontendEndpoints backendPools loadBalancingSettings healthProbeSettings =
     [(''routing_rule'', VList routingRules),
      (''frontend_endpoint'', VList configFrontendEndpoints),
      (''backend_pool'', VList backendPools),
      (''backend_pool_load_balancing'', VList loadBalancingSettings),
      (''backend_pool_health_probe'', VList healthProbeSettings)]"

definition mkRoutingRule :: "string \<Rightarrow> string list \<Rightarrow> val list \<Rightarrow> val list \<Rightarrow> val" where
  "mkRoutingRule n frontends redirect forward =
     VMap [(''name'', VString n),
           (''frontend_endpoints'', VList (map VString frontends)),
           (''redirect_configuration'', VList redirect),
           (''forwarding_configuration'', VList forward)]"

definition mkRedirect :: val where
  "mkRedirect = VMap [(''redirect_type'', VString ''Found'')]"

definition mkForwarding :: "string \<Rightarrow> val" where
  "mkForwarding pool = VMap [(''backend_pool_name'', VString pool)]"

definition mkBackendPool :: "string \<Rightarrow> string \<Rightarrow> string \<Rightarrow> val" where
  "mkBackendPool n lb hp =
     VMap [(''name'', VString n),
           (''load_balancing_name'', VString lb),
           (''health_probe_name'', VString hp)]"

definition mkSettings :: "string \<Rightarrow> val" where
  "mkSettings n = VMap [(''name'', VString n)]"

definition mkCustomHttps :: "string \<Rightarrow> string \<Rightarrow> string \<Rightarrow> string \<Rightarrow> val" where
  "mkCustomHttps source secretName secretVersion vaultId =
     VMap [(''certificate_source'', VString source),
           (''azure_key_vault_certificate_secret_name'', VString secretName),
           (''azure_key_vault_certificate_secret_version'', VString secretVersion),
           (''azure_key_vault_certificate_vault_id'', VString vaultId)]"

definition mkFrontendEndpoint :: "string \<Rightarrow> bool \<Rightarrow> val list \<Rightarrow> val" where
  "mkFrontendEndpoint n enabled chc =
     VMap [(''name'', VString n),
           (''custom_https_provisioning_enabled'', VBool enabled),
           (''custom_https_configuration'', VList chc)]"

text \<open>End-to-end example 1 of the specification: one endpoint, one forwarding rule, one
  pool whose settings exist.\<close>

definition example1 :: ResourceDiff where
  "example1 =
     mkConfig [mkRoutingRule ''rr1'' [''fe1''] [] [mkForwarding ''bp1'']]
              [mkFrontendEndpoint ''fe1'' False []]
              [mkBackendPool ''bp1'' ''lb1'' ''hp1'']
              [mkSettings ''lb1'']
              [mkSettings ''hp1'']"

text \<open>No frontend endpoint, and violations in every other section.\<close>

definition example_no_endpoint :: ResourceDiff where
  "example_no_endpoint =
     mkConfig [mkRoutingRule ''rr1'' [] [] []]
              []
              [mkBackendPool ''bp1'' ''lb-missing'' ''hp1'']
              [mkSettings ''lb1'']
              []"

text \<open>A valid rule, then a rule with neither block (and an unknown endpoint), then a
  rule with both blocks.\<close>

definition example_no_configuration :: ResourceDiff where
  "example_no_configuration =
     mkConfig [mkRoutingRule ''rr1'' [''fe1''] [] [mkForwarding ''bp1''],
               mkRoutingRule ''rr2'' [''fe-missing''] [] [],
               mkRoutingRule ''rr3'' [''fe1''] [mkRedirect] [mkForwarding ''bp1'']]
              [mkFrontendEndpoint ''fe1'' False []]
              [mkBackendPool ''bp1'' ''lb1'' ''hp1'']
              [mkSettings ''lb1'']
              [mkSettings ''hp1'']"

text \<open>A rule with neither block declared before a rule with both blocks.\<close>

definition example_conflict_after_failure :: ResourceDiff where
  "example_conflict_after_failure =
     mkConfig [mkRoutingRule ''rr0'' [''fe1''] [] [],
               mkRoutingRule ''rr1'' [''fe1''] [mkRedirect] [mkForwarding ''bp1'']]
              [mkFrontendEndpoint ''fe1'' False []]
              [mkBackendPool ''bp1'' ''lb1'' ''hp1'']
              [mkSettings ''lb1'']
              [mkSettings ''hp1'']"

text \<open>A valid rule, then a rule with both blocks (whose pool and endpoints are missing
  too), then a rule with neither block.\<close>

definition example_conflict :: ResourceDiff where
  "example_conflict =
     mkConfig [mkRoutingRule ''rr1'' [''fe1''] [] [mkForwarding ''bp1''],
               mkRoutingRule ''rr2'' [] [mkRedirect] [mkForwarding ''bp-missing''],
               mkRoutingRule ''rr3'' [''fe1''] [] []]
              [mkFrontendEndpoint ''fe1'' False []]
              [mkBackendPool ''bp1'' ''lb1'' ''hp1'']
              [mkSettings ''lb1'']
              [mkSettings ''hp1'']"

text \<open>End-to-end example 2 of the specification, with a pool whose name differs from the
  reference only in case, and with no endpoint listed in the rule.\<close>

definition example2 :: ResourceDiff where
  "example2 =
     mkConfig [mkRoutingRule ''rr1'' [] [] [mkForwarding ''bp-missing'']]
              [mkFrontendEndpoint ''fe1'' False []]
              [mkBackendPool ''bp1'' ''lb1'' ''hp1'', mkBackendPool ''BP-MISSING'' ''lb1'' ''hp1'']
              [mkSettings ''lb1'']
              [mkSettings ''hp1'']"

text \<open>A rule listing two unknown endpoints among known ones, and a rule listing none.\<close>

definition example_frontends :: ResourceDiff where
  "example_frontends =
     mkConfig [mkRoutingRule ''rr1'' [''fe1'', ''fe-a'', ''fe2'', ''fe-b''] [mkRedirect] []]
              [mkFrontendEndpoint ''fe1'' False [], mkFrontendEndpoint ''fe2'' False []]
              []
              []
              []"

definition example_no_frontends :: ResourceDiff where
  "example_no_frontends =
     mkConfig [mkRoutingRule ''rr1'' [] [] [mkForwarding ''bp1'']]
              [mkFrontendEndpoint ''fe1'' False []]
              [mkBackendPool ''bp1'' ''lb1'' ''hp1'']
              [mkSettings ''lb1'']
              [mkSettings ''hp1'']"

text \<open>Backend pools whose settings names are unknown: with both settings collections
  populated, with only the health probes populated, and with neither.\<close>

definition example_load_balancing :: ResourceDiff where
  "example_load_balancing =
     mkConfig [mkRoutingRule ''rr1'' [''fe1''] [] [mkForwarding ''bp1'']]
              [mkFrontendEndpoint ''fe1'' False []]
              [mkBackendPool ''bp1'' ''lb1'' ''hp1'',
               mkBackendPool ''bp2'' ''lb-missing'' ''hp-missing'']
              [mkSettings ''lb1'']
              [mkSettings ''hp1'']"

definition example_health_probe :: ResourceDiff where
  "example_health_probe =
     mkConfig [mkRoutingRule ''rr1'' [''fe1''] [] [mkForwarding ''bp1'']]
              [mkFrontendEndpoint ''fe1'' False []]
              [mkBackendPool ''bp1'' ''lb-missing'' ''hp-missing'']
              []
              [mkSettings ''hp1'']"

definition example_no_settings :: ResourceDiff where
  "example_no_settings =
     mkConfig [mkRoutingRule ''rr1'' [''fe1''] [] [mkForwarding ''bp1'']]
              [mkFrontendEndpoint ''fe1'' False []]
              [mkBackendPool ''bp1'' ''lb-missing'' ''hp-missing'']
              []
              []"

text \<open>An endpoint with a TLS block while provisioning is off (between a valid endpoint
  and one that lacks the block), and an endpoint that lacks the block while provisioning
  is on.\<close>

definition example_tls_disabled :: ResourceDiff where
  "example_tls_disabled =
     mkConfig [mkRoutingRule ''rr1'' [''fe1''] [] [mkForwarding ''bp1'']]
              [mkFrontendEndpoint ''fe1'' False [],
               mkFrontendEndpoint ''fe2'' False [mkCustomHttps ''FrontDoor'' [] [] []],
               mkFrontendEndpoint ''fe3'' True []]
              [mkBackendPool ''bp1'' ''lb1'' ''hp1'']
              [mkSettings ''lb1'']
              [mkSettings ''hp1'']"

definition example_tls_undefined :: ResourceDiff where
  "example_tls_undefined =
     mkConfig [mkRoutingRule ''rr1'' [''fe1''] [] [mkForwarding ''bp1'']]
              [mkFrontendEndpoint ''fe1'' True []]
              [mkBackendPool ''bp1'' ''lb1'' ''hp1'']
              [mkSettings ''lb1'']
              [mkSettings ''hp1'']"

text \<open>End-to-end example 3 of the specification, and a block of another certificate
  source that sets a key-vault field.\<close>

definition example3 :: ResourceDiff where
  "example3 =
     mkConfig [mkRoutingRule ''rr1'' [''fe1''] [] [mkForwarding ''bp1'']]
              [mkFrontendEndpoint ''fe1'' True
                 [mkCustomHttps ''AzureKeyVault'' [] ''v1'' ''vault-id'']]
              [mkBackendPool ''bp1'' ''lb1'' ''hp1'']
              [mkSettings ''lb1'']
              [mkSettings ''hp1'']"

definition example_tls_extraneous :: ResourceDiff where
  "example_tls_extraneous =
     mkConfig [mkRoutingRule ''rr1'' [''fe1''] [] [mkForwarding ''bp1'']]
              [mkFrontendEndpoint ''fe1'' True [mkCustomHttps ''FrontDoor'' [] ''v1'' []]]
              [mkBackendPool ''bp1'' ''lb1'' ''hp1'']
              [mkSettings ''lb1'']
              [mkSettings ''hp1'']"

text \<open>Example 1 with every entry of the four referenced collections repeated.\<close>

definition example_duplicates :: ResourceDiff where
  "example_duplicates =
     mkConfig [mkRoutingRule ''rr1'' [''fe1''] [] [mkForwarding ''bp1'']]
              [mkFrontendEndpoint ''fe1'' False [], mkFrontendEndpoint ''fe1'' False []]
              [mkBackendPool ''bp1'' ''lb1'' ''hp1'', mkBackendPool ''bp1'' ''lb1'' ''hp1'']
              [mkSettings ''lb1'', mkSettings ''lb1'']
              [mkSettings ''hp1'', mkSettings ''hp1'', mkSettings ''hp1'']"



section \<open>Loops, sections and lookups\<close>

lemma sections_mkConfig:
  "sections (mkConfig rules feps pools lbs hps) rules feps pools lbs hps"
  by (simp add: sections_def mkConfig_def Get_def index_def)

lemma forEach_pass_iff:
  "forEach body xs = Inr None \<longleftrightarrow> (\<forall>x\<in>set xs. body x = Inr None)"
  by (induction xs) (auto split: sum.splits option.splits)

lemma forEach_first_error:
  "\<forall>x\<in>set pre. body x = Inr None \<Longrightarrow> body x = Inr (Some e)
   \<Longrightarrow> forEach body (pre @ x # post) = Inr (Some e)"
  by (induction pre) simp_all

lemma forEach_prefix_error:
  "forEach body pre = Inr (Some e) \<Longrightarrow> forEach body (pre @ post) = Inr (Some e)"
  by (induction pre) (auto split: sum.splits option.splits)

lemma forEach_error_origin:
  "forEach body xs = Inr (Some e) \<Longrightarrow> \<exists>x\<in>set xs. body x = Inr (Some e)"
  by (induction xs) (auto split: sum.splits option.splits)


lemma FrontdoorSettings_sections:
  "sections d rules feps pools lbs hps \<Longrightarrow>
   FrontdoorSettings d =
     (if feps = [] then Inr (Some NoFrontendEndpoint)
      else (case forEach (checkRoutingRule feps pools) rules of
              Inl p \<Rightarrow> Inl p
            | Inr (Some e) \<Rightarrow> Inr (Some e)
            | Inr None \<Rightarrow>
                (case forEach (checkBackendPool lbs hps) pools of
                   Inl p \<Rightarrow> Inl p
                 | Inr (Some e) \<Rightarrow> Inr (Some e)
                 | Inr None \<Rightarrow> forEach checkFrontendEndpoint feps)))"
  by (simp add: sections_def FrontdoorSettings_def)

lemma FrontdoorSettings_pass_iff:
  assumes "sections d rules feps pools lbs hps"
  shows "FrontdoorSettings d = Inr None \<longleftrightarrow>
           feps \<noteq> []
           \<and> (\<forall>rr\<in>set rules. checkRoutingRule feps pools rr = Inr None)
           \<and> (\<forall>bps\<in>set pools. checkBackendPool lbs hps bps = Inr None)
           \<and> (\<forall>fe\<in>set feps. checkFrontendEndpoint fe = Inr None)"
  unfolding FrontdoorSettings_sections [OF assms] forEach_pass_iff [symmetric]
  by (simp split: sum.splits option.splits)

lemma FrontdoorSettings_rule_error:
  assumes "sections d rules feps pools lbs hps" and "feps \<noteq> []"
    and "rules = pre @ rr # post"
    and "\<forall>x\<in>set pre. checkRoutingRule feps pools x = Inr None"
    and "checkRoutingRule feps pools rr = Inr (Some e)"
  shows "FrontdoorSettings d = Inr (Some e)"
  using assms(2-) by (simp add: FrontdoorSettings_sections [OF assms(1)] forEach_first_error)

lemma FrontdoorSettings_pool_error:
  assumes "sections d rules feps pools lbs hps" and "feps \<noteq> []"
    and "\<forall>x\<in>set rules. checkRoutingRule feps pools x = Inr None"
    and "pools = pre @ bps # post"
    and "\<forall>x\<in>set pre. checkBackendPool lbs hps x = Inr None"
    and "checkBackendPool lbs hps bps = Inr (Some e)"
  shows "FrontdoorSettings d = Inr (Some e)"
proof -
  have "forEach (checkRoutingRule feps pools) rules = Inr None"
    using assms(3) by (simp add: forEach_pass_iff)
  moreover have "forEach (checkBackendPool lbs hps) pools = Inr (Some e)"
    using assms(4-) by (simp add: forEach_first_error)
  ultimately show ?thesis
    using assms(2) by (simp add: FrontdoorSettings_sections [OF assms(1)])
qed

lemma FrontdoorSettings_endpoint_error:
  assumes "sections d rules feps pools lbs hps"
    and "\<forall>x\<in>set rules. checkRoutingRule feps pools x = Inr None"
    and "\<forall>x\<in>set pools. checkBackendPool lbs hps x = Inr None"
    and "feps = pre @ fe # post"
    and "\<forall>x\<in>set pre. checkFrontendEndpoint x = Inr None"
    and "checkFrontendEndpoint fe = Inr (Some e)"
  shows "FrontdoorSettings d = Inr (Some e)"
proof -
  have "forEach (checkRoutingRule feps pools) rules = Inr None"
    using assms(2) by (simp add: forEach_pass_iff)
  moreover have "forEach (checkBackendPool lbs hps) pools = Inr None"
    using assms(3) by (simp add: forEach_pass_iff)
  moreover have "forEach checkFrontendEndpoint feps = Inr (Some e)"
    using assms(4-) by (simp add: forEach_first_error)
  moreover have "feps \<noteq> []" using assms(4) by simp
  ultimately show ?thesis
    by (simp add: FrontdoorSettings_sections [OF assms(1)])
qed

lemma FrontdoorSettings_not_pass_rule:
  assumes "sections d rules feps pools lbs hps" and "rr \<in> set rules"
    and "checkRoutingRule feps pools rr \<noteq> Inr None"
  shows "FrontdoorSettings d \<noteq> Inr None"
  using assms(2,3) by (auto simp: FrontdoorSettings_pass_iff [OF assms(1)])

lemma FrontdoorSettings_earlier_rule_error:
  assumes "sections d rules feps pools lbs hps" and "feps \<noteq> []"
    and "rules = pre @ post"
    and "forEach (checkRoutingRule feps pools) pre = Inr (Some e)"
  shows "FrontdoorSettings d = Inr (Some e)"
  using assms(2-) by (simp add: FrontdoorSettings_sections [OF assms(1)] forEach_prefix_error)

lemma mapsTo_field: "field (VMap m) k = index m k"
  by (simp add: field_def)

lemma isMap_cases: "isMap v \<Longrightarrow> \<exists>m. v = VMap m"
  by (cases v) simp_all

lemma field_list_is_map: "field v k = VList xs \<Longrightarrow> \<exists>m. v = VMap m \<and> index m k = VList xs"
  by (cases v) (simp_all add: field_def)

lemma field_string_is_map: "field v k = VString s \<Longrightarrow> \<exists>m. v = VMap m \<and> index m k = VString s"
  by (cases v) (simp_all add: field_def)

lemma field_bool_is_map: "field v k = VBool b \<Longrightarrow> \<exists>m. v = VMap m \<and> index m k = VBool b"
  by (cases v) (simp_all add: field_def)

subsection \<open>Lookups\<close>

lemma DoesBackendPoolExists_names:
  "DoesBackendPoolExists n pools =
     (if VString n \<in> names pools then None else Some (BackendPoolNotFound n))"
  by (induction pools) (simp_all add: names_def)

lemma frontendFound_names:
  "list_all isMap feps \<Longrightarrow> frontendFound n feps = Inr (VString n \<in> names feps)"
proof (induction feps)
  case Nil
  then show ?case by (simp add: names_def)
next
  case (Cons fe feps)
  then obtain m where "fe = VMap m" by (auto dest: isMap_cases)
  with Cons show ?case by (auto simp: names_def field_def)
qed

lemma frontendFound_True_names:
  "frontendFound n feps = Inr True \<Longrightarrow> VString n \<in> names feps"
proof (induction feps)
  case Nil
  then show ?case by simp
next
  case (Cons fe feps)
  then show ?case
    by (cases fe) (auto simp: names_def field_def split: if_splits)
qed

lemma ifaceEq_comparable:
  "\<not> isList w \<Longrightarrow> \<not> isMap w \<Longrightarrow> ifaceEq v w = Inr (v = w)"
  by (simp add: ifaceEq_def)

lemma settingsFound_names:
  "list_all isMap ss \<Longrightarrow> \<not> isList w \<Longrightarrow> \<not> isMap w
   \<Longrightarrow> settingsFound w ss = Inr (w \<in> names ss)"
proof (induction ss)
  case Nil
  then show ?case by (simp add: names_def)
next
  case (Cons s ss)
  then obtain m where "s = VMap m" by (auto dest: isMap_cases)
  with Cons show ?case by (auto simp: names_def field_def ifaceEq_comparable)
qed

subsection \<open>Routing rules\<close>

lemma checkRoutingRule_fields:
  assumes "field rr ''redirect_configuration'' = VList rc"
    and "field rr ''forwarding_configuration'' = VList fw"
  shows "checkRoutingRule feps pools rr =
     (if length rc = 0 \<and> length fw = 0
      then Inr (Some (RoutingRuleNoConfiguration (field rr ''name'')))
      else if length rc = 1 \<and> length fw = 1
      then Inr (Some (RoutingRuleConflictingConfiguration (field rr ''name'')))
      else (case checkForwarding (field rr ''name'') pools fw of
              Inl p \<Rightarrow> Inl p
            | Inr (Some e) \<Rightarrow> Inr (Some e)
            | Inr None \<Rightarrow>
                (case asList (field rr ''frontend_endpoints'') of
                   Inl p \<Rightarrow> Inl p
                 | Inr fes \<Rightarrow>
                     if length fes > 0
                     then forEach (checkRoutingRuleFrontend (field rr ''name'') feps) fes
                     else Inr (Some (RoutingRuleNoFrontends (field rr ''name''))))))"
proof -
  from assms(1) obtain m where "rr = VMap m" by (auto dest: field_list_is_map)
  with assms show ?thesis
    by (simp add: checkRoutingRule_def mapsTo_field Let_def cong: sum.case_cong option.case_cong if_cong)
qed

lemma checkForwarding_dangling:
  assumes "field fc ''backend_pool_name'' = VString n" and "VString n \<notin> names pools"
  shows "checkForwarding name pools (fc # more) =
           Inr (Some (RoutingRuleBackendPool name (BackendPoolNotFound n)))"
proof -
  from assms(1) obtain m where "fc = VMap m" "index m ''backend_pool_name'' = VString n"
    by (auto dest: field_string_is_map)
  with assms(2) show ?thesis
    by (simp add: checkForwarding_def DoesBackendPoolExists_names)
qed


lemma checkRoutingRuleFrontend_names:
  "list_all isMap feps \<Longrightarrow>
   checkRoutingRuleFrontend name feps (VString n) =
     (if VString n \<in> names feps then Inr None
      else Inr (Some (RoutingRuleFrontendNotFound name n)))"
  by (simp add: checkRoutingRuleFrontend_def frontendFound_names)

lemma checkRoutingRuleFrontend_pass:
  "checkRoutingRuleFrontend name feps v = Inr None \<Longrightarrow> v \<in> names feps"
  by (cases v)
     (auto simp: checkRoutingRuleFrontend_def dest: frontendFound_True_names
           split: sum.splits if_splits)

lemma checkRoutingRule_frontends_pass:
  assumes "checkRoutingRule feps pools rr = Inr None"
    and "field rr ''frontend_endpoints'' = VList fes"
  shows "fes \<noteq> [] \<and> set fes \<subseteq> names feps"
proof -
  from assms(2) obtain m where m: "rr = VMap m" "index m ''frontend_endpoints'' = VList fes"
    by (auto dest: field_list_is_map)
  have "fes \<noteq> [] \<and> forEach (checkRoutingRuleFrontend (index m ''name'') feps) fes = Inr None"
    using assms(1) m
    by (auto simp: checkRoutingRule_def Let_def split: sum.splits option.splits if_splits)
  then show ?thesis
    by (auto simp: forEach_pass_iff dest: checkRoutingRuleFrontend_pass)
qed

lemma checkRoutingRule_forwarding_pass:
  assumes "checkRoutingRule feps pools rr = Inr None"
    and "field rr ''forwarding_configuration'' = VList (fc # more)"
    and "field fc ''backend_pool_name'' = VString n"
  shows "VString n \<in> names pools"
proof (rule ccontr)
  assume n: "VString n \<notin> names pools"
  from assms(2) obtain m where m: "rr = VMap m" "index m ''forwarding_configuration'' = VList (fc # more)"
    by (auto dest: field_list_is_map)
  have "checkForwarding (index m ''name'') pools (fc # more) = Inr None"
    using assms(1) m
    by (auto simp: checkRoutingRule_def Let_def split: sum.splits option.splits if_splits)
  with checkForwarding_dangling [OF assms(3) n] show False by simp
qed

lemma frontends_first_unresolved:
  assumes "list_all isMap feps" and "\<forall>g\<in>set good. VString g \<in> names feps"
    and "VString n \<notin> names feps"
  shows "forEach (checkRoutingRuleFrontend name feps) (map VString good @ VString n # more)
           = Inr (Some (RoutingRuleFrontendNotFound name n))"
  using assms by (intro forEach_first_error) (auto simp: checkRoutingRuleFrontend_names)

subsection \<open>Backend pools, and where an error comes from\<close>

lemma checkBackendPool_fields:
  assumes "field bps ''load_balancing_name'' = VString l"
    and "field bps ''health_probe_name'' = VString h"
    and "list_all isMap lbs" and "list_all isMap hps"
  shows "checkBackendPool lbs hps bps =
     (if lbs \<noteq> [] \<and> VString l \<notin> names lbs
      then Inr (Some (BackendPoolLoadBalancingNotFound (field bps ''name'') (VString l)))
      else if hps \<noteq> [] \<and> VString h \<notin> names hps
      then Inr (Some (BackendPoolHealthProbeNotFound (field bps ''name'') (VString h)))
      else Inr None)"
proof -
  from assms(1) obtain m where "bps = VMap m" by (auto dest: field_string_is_map)
  with assms show ?thesis
    by (simp add: checkBackendPool_def checkLoadBalancing_def checkHealthProbe_def
          mapsTo_field settingsFound_names Let_def)
qed

lemma checkForwarding_origin:
  "checkForwarding name pools fw = Inr (Some e) \<Longrightarrow> \<exists>n err. e = RoutingRuleBackendPool n err"
  by (auto simp: checkForwarding_def split: list.splits sum.splits option.splits)

lemma checkRoutingRuleFrontend_origin:
  "checkRoutingRuleFrontend name feps v = Inr (Some e) \<Longrightarrow> \<exists>n f. e = RoutingRuleFrontendNotFound n f"
  by (auto simp: checkRoutingRuleFrontend_def split: sum.splits if_splits)

lemma checkRoutingRule_origin:
  assumes "checkRoutingRule feps pools rr = Inr (Some e)"
  shows "e \<noteq> BackendPoolLoadBalancingNotFound a b \<and> e \<noteq> BackendPoolHealthProbeNotFound a b"
proof (cases rr)
  case (VMap m)
  show ?thesis
  proof (cases "asList (index m ''redirect_configuration'')")
    case Inl
    with VMap assms show ?thesis by (simp add: checkRoutingRule_def)
  next
    case rc: (Inr rc)
    show ?thesis
    proof (cases "asList (index m ''forwarding_configuration'')")
      case Inl
      with VMap rc assms show ?thesis by (simp add: checkRoutingRule_def)
    next
      case fw: (Inr fw)
      show ?thesis
        using assms VMap rc fw
        by (auto simp: checkRoutingRule_def Let_def
              split: if_splits sum.splits option.splits
              dest!: checkForwarding_origin forEach_error_origin checkRoutingRuleFrontend_origin)
    qed
  qed
qed (use assms in \<open>simp_all add: checkRoutingRule_def\<close>)

lemma checkCustomHttps_origin:
  "checkCustomHttps name h = Inr (Some e) \<Longrightarrow>
     e = KeyVaultValuesRequired name \<or> e = KeyVaultValuesForbidden name"
  by (auto simp: checkCustomHttps_def Let_def split: sum.splits if_splits)

lemma checkFrontendEndpoint_origin:
  assumes "checkFrontendEndpoint fe = Inr (Some e)"
  shows "e \<noteq> BackendPoolLoadBalancingNotFound a b \<and> e \<noteq> BackendPoolHealthProbeNotFound a b"
  using assms
  by (auto simp: checkFrontendEndpoint_def Let_def
        split: sum.splits if_splits list.splits dest!: checkCustomHttps_origin)

lemma checkBackendPool_load_balancing_origin:
  "checkBackendPool lbs hps bps = Inr (Some (BackendPoolLoadBalancingNotFound a b)) \<Longrightarrow> lbs \<noteq> []"
  by (auto simp: checkBackendPool_def checkLoadBalancing_def checkHealthProbe_def Let_def
        split: sum.splits option.splits if_splits)

lemma checkBackendPool_health_probe_origin:
  "checkBackendPool lbs hps bps = Inr (Some (BackendPoolHealthProbeNotFound a b)) \<Longrightarrow> hps \<noteq> []"
  by (auto simp: checkBackendPool_def checkLoadBalancing_def checkHealthProbe_def Let_def
        split: sum.splits option.splits if_splits)

lemma FrontdoorSettings_error_origin:
  assumes "sections d rules feps pools lbs hps" and "FrontdoorSettings d = Inr (Some e)"
  shows "e = NoFrontendEndpoint
         \<or> (\<exists>rr\<in>set rules. checkRoutingRule feps pools rr = Inr (Some e))
         \<or> (\<exists>bps\<in>set pools. checkBackendPool lbs hps bps = Inr (Some e))
         \<or> (\<exists>fe\<in>set feps. checkFrontendEndpoint fe = Inr (Some e))"
  using assms(2) unfolding FrontdoorSettings_sections [OF assms(1)]
  by (auto split: if_splits sum.splits option.splits dest: forEach_error_origin)

lemma FrontdoorSettings_not_pass_pool:
  assumes "sections d rules feps pools lbs hps" and "bps \<in> set pools"
    and "checkBackendPool lbs hps bps \<noteq> Inr None"
  shows "FrontdoorSettings d \<noteq> Inr None"
  using assms(2,3) by (auto simp: FrontdoorSettings_pass_iff [OF assms(1)])

lemma FrontdoorSettings_not_pass_endpoint:
  assumes "sections d rules feps pools lbs hps" and "fe \<in> set feps"
    and "checkFrontendEndpoint fe \<noteq> Inr None"
  shows "FrontdoorSettings d \<noteq> Inr None"
  using assms(2,3) by (auto simp: FrontdoorSettings_pass_iff [OF assms(1)])

subsection \<open>Frontend endpoints\<close>

lemma len_map_positive: "0 < len_map m \<longleftrightarrow> m \<noteq> []"
  by (cases m) (auto simp: len_map_def)

lemma index_len_map: "index m k \<noteq> VNil \<Longrightarrow> 0 < len_map m"
  by (cases m) (simp_all add: index_def len_map_positive)

lemma checkFrontendEndpoint_fields:
  assumes "field fe ''custom_https_provisioning_enabled'' = VBool b"
    and "field fe ''custom_https_configuration'' = VList c"
  shows "checkFrontendEndpoint fe =
     (case c of
        chc0 # _ \<Rightarrow>
          if \<not> b then Inr (Some (CustomHttpsNotEnabled (field fe ''name'')))
          else checkCustomHttps (field fe ''name'') chc0
      | [] \<Rightarrow>
          if b then Inr (Some (CustomHttpsUndefined (field fe ''name'')))
          else Inr None)"
proof -
  from assms(1) obtain m where m: "fe = VMap m" "index m ''custom_https_provisioning_enabled'' = VBool b"
    by (auto dest: field_bool_is_map)
  then have "0 < len_map m" by (intro index_len_map [of m "''custom_https_provisioning_enabled''"]) simp
  with m assms(2) show ?thesis
    by (simp add: checkFrontendEndpoint_def mapsTo_field Let_def cong: list.case_cong)
qed

lemma checkCustomHttps_fields:
  assumes "field h ''azure_key_vault_certificate_secret_name'' = VString a"
    and "field h ''azure_key_vault_certificate_secret_version'' = VString b"
    and "field h ''azure_key_vault_certificate_vault_id'' = VString c"
  shows "checkCustomHttps name h =
     (if field h ''certificate_source'' = VString ''AzureKeyVault''
      then (if a = [] \<or> b = [] \<or> c = [] then Inr (Some (KeyVaultValuesRequired name)) else Inr None)
      else (if a \<noteq> [] \<or> b \<noteq> [] \<or> c \<noteq> [] then Inr (Some (KeyVaultValuesForbidden name)) else Inr None))"
proof -
  from assms(1) obtain m where "h = VMap m" by (auto dest: field_string_is_map)
  with assms show ?thesis
    by (simp add: checkCustomHttps_def AzureKeyVaultCertificateHasValues_def populated_def
          CertificateSourceAzureKeyVault_def mapsTo_field Let_def)
qed

subsection \<open>Well-shaped trees\<close>

lemma isString_cases: "isString v \<Longrightarrow> \<exists>s. v = VString s"
  by (cases v) simp_all


lemma listOf_cases: "listOf P v \<Longrightarrow> \<exists>xs. v = VList xs \<and> list_all P xs"
  by (cases v) (simp_all add: listOf_def)


lemma wfConfig_sectionsD:
  assumes "wfConfig d" and "sections d rules feps pools lbs hps"
  shows "list_all wfRoutingRule rules" and "list_all wfFrontendEndpoint feps"
    and "list_all wfBackendPool pools" and "list_all wfSettings lbs" and "list_all wfSettings hps"
  using assms unfolding wfConfig_def sections_def by (auto dest!: listOf_cases)

lemma wfFrontendEndpoints_maps: "list_all wfFrontendEndpoint feps \<Longrightarrow> list_all isMap feps"
  by (simp add: list_all_iff wfFrontendEndpoint_def)

lemma wfSettings_maps: "list_all wfSettings ss \<Longrightarrow> list_all isMap ss"
  by (simp add: list_all_iff wfSettings_def)







subsection \<open>Dependence on the names only\<close>

lemma names_empty_iff: "names xs = {} \<longleftrightarrow> xs = []"
  by (simp add: names_def)

lemma names_cong_set: "set xs = set ys \<Longrightarrow> names xs = names ys"
  by (simp add: names_def)

lemma checkForwarding_names:
  "names pools' = names pools \<Longrightarrow> checkForwarding name pools' fw = checkForwarding name pools fw"
  by (simp add: checkForwarding_def DoesBackendPoolExists_names
        cong: list.case_cong sum.case_cong)

lemma checkRoutingRuleFrontend_names_cong:
  assumes "list_all isMap feps'" and "list_all isMap feps" and "names feps' = names feps"
  shows "checkRoutingRuleFrontend name feps' = checkRoutingRuleFrontend name feps"
proof
  fix v
  show "checkRoutingRuleFrontend name feps' v = checkRoutingRuleFrontend name feps v"
    using assms(3)
    by (cases v)
       (simp_all add: checkRoutingRuleFrontend_def frontendFound_names [OF assms(1)]
          frontendFound_names [OF assms(2)])
qed

lemma checkRoutingRule_names_cong:
  assumes "list_all isMap feps'" and "list_all isMap feps"
    and "names feps' = names feps" and "names pools' = names pools"
  shows "checkRoutingRule feps' pools' rr = checkRoutingRule feps pools rr"
  unfolding checkRoutingRule_def
    checkRoutingRuleFrontend_names_cong [OF assms(1,2,3)] checkForwarding_names [OF assms(4)]
  by (rule refl)

lemma checkBackendPool_names_cong:
  assumes "wfBackendPool bps"
    and "list_all isMap lbs'" and "list_all isMap lbs" and "names lbs' = names lbs"
    and "list_all isMap hps'" and "list_all isMap hps" and "names hps' = names hps"
  shows "checkBackendPool lbs' hps' bps = checkBackendPool lbs hps bps"
proof -
  from assms(1) obtain l h where
    f: "field bps ''load_balancing_name'' = VString l" "field bps ''health_probe_name'' = VString h"
    unfolding wfBackendPool_def by (auto dest!: isString_cases)
  have "lbs' = [] \<longleftrightarrow> lbs = []" "hps' = [] \<longleftrightarrow> hps = []"
    using assms(4,7) names_empty_iff by metis+
  then show ?thesis
    using assms(4,7)
    by (simp add: checkBackendPool_fields [OF f assms(2,5)] checkBackendPool_fields [OF f assms(3,6)])
qed

subsection \<open>The checks and the conditions\<close>




section \<open>The claims\<close>

text \<open>
  Claim C8. When the \<^verbatim>\<open>frontend_endpoint\<close> collection is empty, validation fails with
  the missing-required-collection error. The test on line 44 comes right after the five
  collections are read, before any loop, so the verdict is the same whatever the routing
  rules, backend pools, settings and endpoint blocks hold: nothing is assumed of them but
  that they are lists, as \<^verbatim>\<open>d.Get\<close> delivers them.
\<close>

theorem no_frontend_endpoint:
  assumes "isList (Get d ''routing_rule'')"
    and "Get d ''frontend_endpoint'' = VList []"
    and "isList (Get d ''backend_pool'')"
    and "isList (Get d ''backend_pool_load_balancing'')"
    and "isList (Get d ''backend_pool_health_probe'')"
  shows "FrontdoorSettings d = Inr (Some NoFrontendEndpoint)
         \<and> kind_of NoFrontendEndpoint = MissingRequiredCollection"
proof -
  obtain rules where "Get d ''routing_rule'' = VList rules"
    using assms(1) by (cases "Get d ''routing_rule''") simp_all
  moreover obtain pools where "Get d ''backend_pool'' = VList pools"
    using assms(3) by (cases "Get d ''backend_pool''") simp_all
  moreover obtain lbs where "Get d ''backend_pool_load_balancing'' = VList lbs"
    using assms(4) by (cases "Get d ''backend_pool_load_balancing''") simp_all
  moreover obtain hps where "Get d ''backend_pool_health_probe'' = VList hps"
    using assms(5) by (cases "Get d ''backend_pool_health_probe''") simp_all
  ultimately show ?thesis
    using assms(2) by (simp add: FrontdoorSettings_def)
qed

theorem no_frontend_endpoint_witness:
  "FrontdoorSettings example_no_endpoint = Inr (Some NoFrontendEndpoint)
   \<and> checkRoutingRule [] [mkBackendPool ''bp1'' ''lb-missing'' ''hp1''] (mkRoutingRule ''rr1'' [] [] [])
       = Inr (Some (RoutingRuleNoConfiguration (VString ''rr1'')))"
proof -
  have "isList (Get example_no_endpoint ''routing_rule'')"
    and "Get example_no_endpoint ''frontend_endpoint'' = VList []"
    and "isList (Get example_no_endpoint ''backend_pool'')"
    and "isList (Get example_no_endpoint ''backend_pool_load_balancing'')"
    and "isList (Get example_no_endpoint ''backend_pool_health_probe'')"
    by (simp_all add: example_no_endpoint_def mkConfig_def Get_def index_def)
  from no_frontend_endpoint [OF this] show ?thesis
    by (simp add: checkRoutingRule_def mkRoutingRule_def index_def)
qed

text \<open>
  Claim C6. For every routing rule that has neither a \<^verbatim>\<open>redirect_configuration\<close> nor a
  \<^verbatim>\<open>forwarding_configuration\<close>, the check of the rule fails with the
  missing-configuration-block error naming that rule. Check 0 is the first check of the
  loop body: nothing is assumed of the rule's \<^verbatim>\<open>frontend_endpoints\<close> or of the collections
  its references point into, so neither the conflict check nor any reference is evaluated
  before it. A configuration with such a rule is never accepted, and the error is the
  verdict of the validation when the loop reaches the rule (no rule declared before it
  fails), whatever the rules after it and the other sections hold.
\<close>

theorem routing_rule_without_configuration:
  assumes "sections d rules feps pools lbs hps" and "feps \<noteq> []"
    and "rules = pre @ rr # post"
    and "field rr ''redirect_configuration'' = VList []"
    and "field rr ''forwarding_configuration'' = VList []"
  shows "checkRoutingRule feps pools rr
           = Inr (Some (RoutingRuleNoConfiguration (field rr ''name'')))
         \<and> FrontdoorSettings d \<noteq> Inr None
         \<and> (forEach (checkRoutingRule feps pools) pre = Inr None \<longrightarrow>
              FrontdoorSettings d = Inr (Some (RoutingRuleNoConfiguration (field rr ''name''))))
         \<and> kind_of (RoutingRuleNoConfiguration (field rr ''name'')) = MissingConfigurationBlock"
proof -
  have rr: "checkRoutingRule feps pools rr = Inr (Some (RoutingRuleNoConfiguration (field rr ''name'')))"
    by (simp add: checkRoutingRule_fields [OF assms(4,5)])
  have "FrontdoorSettings d \<noteq> Inr None"
    using assms(3) rr by (intro FrontdoorSettings_not_pass_rule [OF assms(1), of rr]) simp_all
  moreover have "FrontdoorSettings d = Inr (Some (RoutingRuleNoConfiguration (field rr ''name'')))"
    if "forEach (checkRoutingRule feps pools) pre = Inr None"
    using that rr
    by (intro FrontdoorSettings_rule_error [OF assms(1,2,3)]) (simp_all add: forEach_pass_iff)
  ultimately show ?thesis using rr by simp
qed

theorem routing_rule_without_configuration_witness:
  "FrontdoorSettings example_no_configuration
     = Inr (Some (RoutingRuleNoConfiguration (VString ''rr2'')))"
proof -
  let ?feps = "[mkFrontendEndpoint ''fe1'' False []]"
  let ?pools = "[mkBackendPool ''bp1'' ''lb1'' ''hp1'']"
  let ?rr1 = "mkRoutingRule ''rr1'' [''fe1''] [] [mkForwarding ''bp1'']"
  let ?rr2 = "mkRoutingRule ''rr2'' [''fe-missing''] [] []"
  let ?rr3 = "mkRoutingRule ''rr3'' [''fe1''] [mkRedirect] [mkForwarding ''bp1'']"
  have s: "sections example_no_configuration [?rr1, ?rr2, ?rr3] ?feps ?pools
             [mkSettings ''lb1''] [mkSettings ''hp1'']"
    unfolding example_no_configuration_def by (rule sections_mkConfig)
  have pre: "forEach (checkRoutingRule ?feps ?pools) [?rr1] = Inr None"
    by code_simp
  have f: "field ?rr2 ''redirect_configuration'' = VList []"
          "field ?rr2 ''forwarding_configuration'' = VList []"
          "field ?rr2 ''name'' = VString ''rr2''"
    by (simp_all add: mkRoutingRule_def field_def index_def)
  from routing_rule_without_configuration [OF s _ _ f(1,2), of "[?rr1]" "[?rr3]"] pre f(3)
  show ?thesis by simp
qed

text \<open>
  Claim C5, as stated, fails: the rules are checked in declaration order and the first
  failing check of the first failing rule is the verdict. With a rule that has neither
  block declared before the rule that has both, the verdict names the earlier rule and is
  the missing-configuration-block error.
\<close>

theorem conflicting_configuration_counterexample:
  "FrontdoorSettings example_conflict_after_failure
     = Inr (Some (RoutingRuleNoConfiguration (VString ''rr0'')))
   \<and> FrontdoorSettings example_conflict_after_failure
     \<noteq> Inr (Some (RoutingRuleConflictingConfiguration (VString ''rr1'')))"
  by code_simp

text \<open>
  Claim C5, amended. A configuration (with a non-empty \<^verbatim>\<open>frontend_endpoint\<close> collection)
  containing a routing rule with both a \<^verbatim>\<open>redirect_configuration\<close> and a
  \<^verbatim>\<open>forwarding_configuration\<close> (one block each) is never accepted: the check of that rule
  fails with the conflicting-configuration-blocks error naming it. When no rule declared
  before that rule fails, this error is the verdict, whatever the rule's other fields, the
  rules declared after it and the other sections hold. When a rule declared before it
  fails, the verdict is that earlier rule's error.
\<close>

theorem conflicting_configuration:
  assumes "sections d rules feps pools lbs hps" and "feps \<noteq> []"
    and "rules = pre @ rr # post"
    and "field rr ''redirect_configuration'' = VList [redirect]"
    and "field rr ''forwarding_configuration'' = VList [forward]"
  shows "checkRoutingRule feps pools rr
           = Inr (Some (RoutingRuleConflictingConfiguration (field rr ''name'')))
         \<and> FrontdoorSettings d \<noteq> Inr None
         \<and> (forEach (checkRoutingRule feps pools) pre = Inr None \<longrightarrow>
              FrontdoorSettings d
                = Inr (Some (RoutingRuleConflictingConfiguration (field rr ''name''))))
         \<and> (\<forall>e. forEach (checkRoutingRule feps pools) pre = Inr (Some e) \<longrightarrow>
              FrontdoorSettings d = Inr (Some e))
         \<and> kind_of (RoutingRuleConflictingConfiguration (field rr ''name''))
             = ConflictingConfigurationBlocks"
proof -
  let ?e = "RoutingRuleConflictingConfiguration (field rr ''name'')"
  have rr: "checkRoutingRule feps pools rr = Inr (Some ?e)"
    by (simp add: checkRoutingRule_fields [OF assms(4,5)])
  have "FrontdoorSettings d \<noteq> Inr None"
    using assms(3) rr by (intro FrontdoorSettings_not_pass_rule [OF assms(1), of rr]) simp_all
  moreover have "FrontdoorSettings d = Inr (Some ?e)"
    if "forEach (checkRoutingRule feps pools) pre = Inr None"
    using that rr
    by (intro FrontdoorSettings_rule_error [OF assms(1,2,3)]) (simp_all add: forEach_pass_iff)
  moreover have "FrontdoorSettings d = Inr (Some e)"
    if "forEach (checkRoutingRule feps pools) pre = Inr (Some e)" for e
    using that assms(3) by (intro FrontdoorSettings_earlier_rule_error [OF assms(1,2)]) simp_all
  ultimately show ?thesis using rr by simp
qed

theorem conflicting_configuration_witness:
  "FrontdoorSettings example_conflict
     = Inr (Some (RoutingRuleConflictingConfiguration (VString ''rr2'')))"
proof -
  let ?feps = "[mkFrontendEndpoint ''fe1'' False []]"
  let ?pools = "[mkBackendPool ''bp1'' ''lb1'' ''hp1'']"
  let ?rr1 = "mkRoutingRule ''rr1'' [''fe1''] [] [mkForwarding ''bp1'']"
  let ?rr2 = "mkRoutingRule ''rr2'' [] [mkRedirect] [mkForwarding ''bp-missing'']"
  let ?rr3 = "mkRoutingRule ''rr3'' [''fe1''] [] []"
  have s: "sections example_conflict [?rr1, ?rr2, ?rr3] ?feps ?pools
             [mkSettings ''lb1''] [mkSettings ''hp1'']"
    unfolding example_conflict_def by (rule sections_mkConfig)
  have pre: "forEach (checkRoutingRule ?feps ?pools) [?rr1] = Inr None"
    by code_simp
  have f: "field ?rr2 ''redirect_configuration'' = VList [mkRedirect]"
          "field ?rr2 ''forwarding_configuration'' = VList [mkForwarding ''bp-missing'']"
          "field ?rr2 ''name'' = VString ''rr2''"
    by (simp_all add: mkRoutingRule_def field_def index_def)
  from conflicting_configuration [OF s _ _ f(1,2), of "[?rr1]" "[?rr3]"] pre f(3)
  show ?thesis by simp
qed

text \<open>
  Claim C7. For every routing rule whose \<^verbatim>\<open>forwarding_configuration\<close> names a backend pool
  that equals no \<^verbatim>\<open>name\<close> of the \<^verbatim>\<open>backend_pool\<close> collection (equality of strings, so case
  matters), the check of the rule, once past checks 0 and 1 (the rule has no
  \<^verbatim>\<open>redirect_configuration\<close>), fails with the dangling-reference error carrying the rule's
  name and the unresolved pool name. Check 2 precedes check 3: nothing is assumed of the
  rule's \<^verbatim>\<open>frontend_endpoints\<close>. A configuration with such a rule is never accepted, and the
  error is the verdict of the validation when the loop reaches the rule (no rule declared
  before it fails).
\<close>

theorem forwarding_backend_pool_dangling:
  assumes "sections d rules feps pools lbs hps" and "feps \<noteq> []"
    and "rules = pre @ rr # post"
    and "field rr ''forwarding_configuration'' = VList (fc # more)"
    and "field fc ''backend_pool_name'' = VString n"
    and "VString n \<notin> names pools"
  shows "(field rr ''redirect_configuration'' = VList [] \<longrightarrow>
            checkRoutingRule feps pools rr
              = Inr (Some (RoutingRuleBackendPool (field rr ''name'') (BackendPoolNotFound n))))
         \<and> FrontdoorSettings d \<noteq> Inr None
         \<and> (field rr ''redirect_configuration'' = VList []
              \<and> forEach (checkRoutingRule feps pools) pre = Inr None \<longrightarrow>
              FrontdoorSettings d
                = Inr (Some (RoutingRuleBackendPool (field rr ''name'') (BackendPoolNotFound n))))
         \<and> kind_of (RoutingRuleBackendPool (field rr ''name'') (BackendPoolNotFound n))
             = DanglingReference"
proof -
  let ?e = "RoutingRuleBackendPool (field rr ''name'') (BackendPoolNotFound n)"
  have "checkRoutingRule feps pools rr \<noteq> Inr None"
    using checkRoutingRule_forwarding_pass [OF _ assms(4,5)] assms(6) by blast
  then have "FrontdoorSettings d \<noteq> Inr None"
    using assms(3) by (intro FrontdoorSettings_not_pass_rule [OF assms(1), of rr]) simp_all
  moreover have rr: "checkRoutingRule feps pools rr = Inr (Some ?e)"
    if r: "field rr ''redirect_configuration'' = VList []"
    by (simp add: checkRoutingRule_fields [OF r assms(4)]
          checkForwarding_dangling [OF assms(5,6)])
  moreover have "FrontdoorSettings d = Inr (Some ?e)"
    if r: "field rr ''redirect_configuration'' = VList []"
      and p: "forEach (checkRoutingRule feps pools) pre = Inr None"
    using rr [OF r] p
    by (intro FrontdoorSettings_rule_error [OF assms(1,2,3)]) (simp_all add: forEach_pass_iff)
  ultimately show ?thesis by simp
qed

theorem forwarding_backend_pool_dangling_witness:
  "FrontdoorSettings example2
     = Inr (Some (RoutingRuleBackendPool (VString ''rr1'') (BackendPoolNotFound ''bp-missing'')))"
proof -
  let ?feps = "[mkFrontendEndpoint ''fe1'' False []]"
  let ?pools = "[mkBackendPool ''bp1'' ''lb1'' ''hp1'', mkBackendPool ''BP-MISSING'' ''lb1'' ''hp1'']"
  let ?rr1 = "mkRoutingRule ''rr1'' [] [] [mkForwarding ''bp-missing'']"
  have s: "sections example2 [?rr1] ?feps ?pools [mkSettings ''lb1''] [mkSettings ''hp1'']"
    unfolding example2_def by (rule sections_mkConfig)
  have f: "field ?rr1 ''forwarding_configuration'' = VList [mkForwarding ''bp-missing'']"
          "field (mkForwarding ''bp-missing'') ''backend_pool_name'' = VString ''bp-missing''"
          "field ?rr1 ''redirect_configuration'' = VList []"
          "field ?rr1 ''name'' = VString ''rr1''"
    by (simp_all add: mkRoutingRule_def mkForwarding_def field_def index_def)
  have n: "VString ''bp-missing'' \<notin> names ?pools"
    by (simp add: names_def mkBackendPool_def field_def index_def)
  from forwarding_backend_pool_dangling [OF s _ _ f(1,2) n, of "[]" "[]"] f(3,4)
  show ?thesis by simp
qed

text \<open>
  Claim C2. For every routing rule, once checks 0 to 2 pass on it, the check of the rule
  fails with the missing-required-collection error naming the rule when its
  \<^verbatim>\<open>frontend_endpoints\<close> list is empty, and with the dangling-reference error for the first
  unresolved name, in the order of the list, when the list holds names that equal no
  \<^verbatim>\<open>name\<close> of the \<^verbatim>\<open>frontend_endpoint\<close> collection. A configuration with a rule whose list
  is empty or holds an unresolved name is never accepted, and the error is the verdict of
  the validation when the loop reaches the rule (no rule declared before it fails).
\<close>

theorem routing_rule_frontend_endpoints:
  assumes "sections d rules feps pools lbs hps" and "feps \<noteq> []"
    and "rules = pre @ rr # post"
    and "field rr ''redirect_configuration'' = VList rc"
    and "field rr ''forwarding_configuration'' = VList fw"
    and "field rr ''frontend_endpoints'' = VList fes"
  shows "((fes = [] \<or> \<not> set fes \<subseteq> names feps) \<longrightarrow> FrontdoorSettings d \<noteq> Inr None)
         \<and> (\<not> (length rc = 0 \<and> length fw = 0) \<and> \<not> (length rc = 1 \<and> length fw = 1)
              \<and> checkForwarding (field rr ''name'') pools fw = Inr None \<longrightarrow>
              (fes = [] \<longrightarrow>
                 checkRoutingRule feps pools rr
                   = Inr (Some (RoutingRuleNoFrontends (field rr ''name'')))
                 \<and> (forEach (checkRoutingRule feps pools) pre = Inr None \<longrightarrow>
                      FrontdoorSettings d
                        = Inr (Some (RoutingRuleNoFrontends (field rr ''name'')))))
              \<and> (list_all isMap feps \<and> fes = map VString good @ VString n # more
                   \<and> (\<forall>g\<in>set good. VString g \<in> names feps) \<and> VString n \<notin> names feps \<longrightarrow>
                 checkRoutingRule feps pools rr
                   = Inr (Some (RoutingRuleFrontendNotFound (field rr ''name'') n))
                 \<and> (forEach (checkRoutingRule feps pools) pre = Inr None \<longrightarrow>
                      FrontdoorSettings d
                        = Inr (Some (RoutingRuleFrontendNotFound (field rr ''name'') n)))))
         \<and> kind_of (RoutingRuleNoFrontends (field rr ''name'')) = MissingRequiredCollection
         \<and> kind_of (RoutingRuleFrontendNotFound (field rr ''name'') n) = DanglingReference"
proof -
  have rejected: "FrontdoorSettings d \<noteq> Inr None" if "fes = [] \<or> \<not> set fes \<subseteq> names feps"
  proof -
    have "checkRoutingRule feps pools rr \<noteq> Inr None"
      using checkRoutingRule_frontends_pass [OF _ assms(6)] that by blast
    then show ?thesis
      using assms(3) by (intro FrontdoorSettings_not_pass_rule [OF assms(1), of rr]) simp_all
  qed
  have reach: "FrontdoorSettings d = Inr (Some e)"
    if "checkRoutingRule feps pools rr = Inr (Some e)"
      and "forEach (checkRoutingRule feps pools) pre = Inr None" for e
    using that
    by (intro FrontdoorSettings_rule_error [OF assms(1,2,3)]) (simp_all add: forEach_pass_iff)
  have empty: "checkRoutingRule feps pools rr
                 = Inr (Some (RoutingRuleNoFrontends (field rr ''name'')))"
    if "\<not> (length rc = 0 \<and> length fw = 0)" and "\<not> (length rc = 1 \<and> length fw = 1)"
      and "checkForwarding (field rr ''name'') pools fw = Inr None"
      and "fes = []"
    using that assms(6) by (simp add: checkRoutingRule_fields [OF assms(4,5)])
  have dangling: "checkRoutingRule feps pools rr
                    = Inr (Some (RoutingRuleFrontendNotFound (field rr ''name'') n))"
    if "\<not> (length rc = 0 \<and> length fw = 0)" and "\<not> (length rc = 1 \<and> length fw = 1)"
      and "checkForwarding (field rr ''name'') pools fw = Inr None"
      and "list_all isMap feps" and "fes = map VString good @ VString n # more"
      and "\<forall>g\<in>set good. VString g \<in> names feps" and "VString n \<notin> names feps"
    using that(1,2,3) assms(6) that(5)
    by (simp add: checkRoutingRule_fields [OF assms(4,5)]
          frontends_first_unresolved [OF that(4,6,7)])
  from rejected reach empty dangling show ?thesis
    by (simp only: kind_of.simps) blast
qed

theorem routing_rule_frontend_endpoints_witness:
  "FrontdoorSettings example_frontends
     = Inr (Some (RoutingRuleFrontendNotFound (VString ''rr1'') ''fe-a''))
   \<and> FrontdoorSettings example_no_frontends = Inr (Some (RoutingRuleNoFrontends (VString ''rr1'')))"
proof -
  let ?feps = "[mkFrontendEndpoint ''fe1'' False [], mkFrontendEndpoint ''fe2'' False []]"
  let ?rr1 = "mkRoutingRule ''rr1'' [''fe1'', ''fe-a'', ''fe2'', ''fe-b''] [mkRedirect] []"
  have s: "sections example_frontends [?rr1] ?feps [] [] []"
    unfolding example_frontends_def by (rule sections_mkConfig)
  have f: "field ?rr1 ''redirect_configuration'' = VList [mkRedirect]"
          "field ?rr1 ''forwarding_configuration'' = VList []"
          "field ?rr1 ''frontend_endpoints''
             = VList (map VString [''fe1''] @ VString ''fe-a'' # [VString ''fe2'', VString ''fe-b''])"
          "field ?rr1 ''name'' = VString ''rr1''"
    by (simp_all add: mkRoutingRule_def field_def index_def)
  have n: "list_all isMap ?feps" "\<forall>g\<in>set [''fe1'']. VString g \<in> names ?feps"
      "VString ''fe-a'' \<notin> names ?feps"
    by (simp_all add: names_def mkFrontendEndpoint_def field_def index_def)
  have c: "checkForwarding (VString ''rr1'') [] [] = Inr None"
    by (simp add: checkForwarding_def)
  let ?feps' = "[mkFrontendEndpoint ''fe1'' False []]"
  let ?pools' = "[mkBackendPool ''bp1'' ''lb1'' ''hp1'']"
  let ?rr' = "mkRoutingRule ''rr1'' [] [] [mkForwarding ''bp1'']"
  have s': "sections example_no_frontends [?rr'] ?feps' ?pools' [mkSettings ''lb1''] [mkSettings ''hp1'']"
    unfolding example_no_frontends_def by (rule sections_mkConfig)
  have f': "field ?rr' ''redirect_configuration'' = VList []"
          "field ?rr' ''forwarding_configuration'' = VList [mkForwarding ''bp1'']"
          "field ?rr' ''frontend_endpoints'' = VList []"
          "field ?rr' ''name'' = VString ''rr1''"
    by (simp_all add: mkRoutingRule_def field_def index_def)
  have c': "checkForwarding (VString ''rr1'') ?pools' [mkForwarding ''bp1''] = Inr None"
    by code_simp
  from routing_rule_frontend_endpoints [OF s _ _ f(1,2,3), of "[]" "[]" "[''fe1'']" "''fe-a''"
         "[VString ''fe2'', VString ''fe-b'']"] n c f(4)
       routing_rule_frontend_endpoints [OF s' _ _ f'(1,2,3), of "[]" "[]"] c' f'(4)
  show ?thesis by simp
qed

text \<open>
  Claim C1. For every backend pool, \<^verbatim>\<open>load_balancing_name\<close> is resolved against the
  \<^verbatim>\<open>backend_pool_load_balancing\<close> collection only when that collection is non-empty. If it
  is non-empty and holds no entry of that name, the check of the pool fails with the
  dangling-reference error carrying the pool's name and the unresolved name. If it is
  empty, validation never returns that error, whatever the pool names, and with both
  settings collections empty the pool passes. The same holds for \<^verbatim>\<open>health_probe_name\<close> and
  the \<^verbatim>\<open>backend_pool_health_probe\<close> collection, whose check follows the load-balancing
  check of the same pool. A configuration with a name unresolved against a non-empty
  collection is never accepted, and the error is the verdict of the validation when the
  loop reaches the pool (the endpoint-presence check, every routing rule and every pool
  declared before it pass).
\<close>

theorem backend_pool_settings:
  assumes "sections d rules feps pools lbs hps"
    and "pools = pre @ bps # post"
    and "field bps ''load_balancing_name'' = VString l"
    and "field bps ''health_probe_name'' = VString h"
    and "list_all isMap lbs" and "list_all isMap hps"
  shows "(lbs \<noteq> [] \<and> VString l \<notin> names lbs \<longrightarrow>
            checkBackendPool lbs hps bps
              = Inr (Some (BackendPoolLoadBalancingNotFound (field bps ''name'') (VString l)))
            \<and> FrontdoorSettings d \<noteq> Inr None
            \<and> (feps \<noteq> [] \<and> forEach (checkRoutingRule feps pools) rules = Inr None
                 \<and> forEach (checkBackendPool lbs hps) pre = Inr None \<longrightarrow>
                 FrontdoorSettings d
                   = Inr (Some (BackendPoolLoadBalancingNotFound (field bps ''name'') (VString l)))))
         \<and> ((lbs = [] \<or> VString l \<in> names lbs) \<and> hps \<noteq> [] \<and> VString h \<notin> names hps \<longrightarrow>
            checkBackendPool lbs hps bps
              = Inr (Some (BackendPoolHealthProbeNotFound (field bps ''name'') (VString h)))
            \<and> FrontdoorSettings d \<noteq> Inr None
            \<and> (feps \<noteq> [] \<and> forEach (checkRoutingRule feps pools) rules = Inr None
                 \<and> forEach (checkBackendPool lbs hps) pre = Inr None \<longrightarrow>
                 FrontdoorSettings d
                   = Inr (Some (BackendPoolHealthProbeNotFound (field bps ''name'') (VString h)))))
         \<and> (lbs = [] \<longrightarrow>
               (\<forall>a b. FrontdoorSettings d \<noteq> Inr (Some (BackendPoolLoadBalancingNotFound a b))))
         \<and> (hps = [] \<longrightarrow>
               (\<forall>a b. FrontdoorSettings d \<noteq> Inr (Some (BackendPoolHealthProbeNotFound a b))))
         \<and> (lbs = [] \<and> hps = [] \<longrightarrow> checkBackendPool lbs hps bps = Inr None)
         \<and> kind_of (BackendPoolLoadBalancingNotFound (field bps ''name'') (VString l))
             = DanglingReference
         \<and> kind_of (BackendPoolHealthProbeNotFound (field bps ''name'') (VString h))
             = DanglingReference"
proof -
  note pool = checkBackendPool_fields [OF assms(3,4,5,6)]
  have rejected: "FrontdoorSettings d \<noteq> Inr None" if "checkBackendPool lbs hps bps = Inr (Some e)" for e
    using assms(2) that by (intro FrontdoorSettings_not_pass_pool [OF assms(1), of bps]) simp_all
  have reach: "FrontdoorSettings d = Inr (Some e)"
    if "checkBackendPool lbs hps bps = Inr (Some e)"
      and "feps \<noteq> []" and "forEach (checkRoutingRule feps pools) rules = Inr None"
      and "forEach (checkBackendPool lbs hps) pre = Inr None" for e
    using that
    by (intro FrontdoorSettings_pool_error [OF assms(1) _ _ assms(2)])
       (simp_all add: forEach_pass_iff)
  have lb: "checkBackendPool lbs hps bps
              = Inr (Some (BackendPoolLoadBalancingNotFound (field bps ''name'') (VString l)))"
    if "lbs \<noteq> []" and "VString l \<notin> names lbs"
    using that by (simp add: pool)
  have hp: "checkBackendPool lbs hps bps
              = Inr (Some (BackendPoolHealthProbeNotFound (field bps ''name'') (VString h)))"
    if "lbs = [] \<or> VString l \<in> names lbs" and "hps \<noteq> []" and "VString h \<notin> names hps"
    using that by (auto simp: pool)
  have no_lb: "FrontdoorSettings d \<noteq> Inr (Some (BackendPoolLoadBalancingNotFound a b))"
    if "lbs = []" for a b
  proof
    assume "FrontdoorSettings d = Inr (Some (BackendPoolLoadBalancingNotFound a b))"
    from FrontdoorSettings_error_origin [OF assms(1) this] that show False
      by (auto dest: checkRoutingRule_origin checkFrontendEndpoint_origin
            checkBackendPool_load_balancing_origin)
  qed
  have no_hp: "FrontdoorSettings d \<noteq> Inr (Some (BackendPoolHealthProbeNotFound a b))"
    if "hps = []" for a b
  proof
    assume "FrontdoorSettings d = Inr (Some (BackendPoolHealthProbeNotFound a b))"
    from FrontdoorSettings_error_origin [OF assms(1) this] that show False
      by (auto dest: checkRoutingRule_origin checkFrontendEndpoint_origin
            checkBackendPool_health_probe_origin)
  qed
  have skip: "checkBackendPool lbs hps bps = Inr None" if "lbs = []" and "hps = []"
    unfolding pool using that by simp
  from rejected reach lb hp no_lb no_hp skip show ?thesis
    by (simp only: kind_of.simps) blast
qed

theorem backend_pool_settings_witness:
  "FrontdoorSettings example_load_balancing
     = Inr (Some (BackendPoolLoadBalancingNotFound (VString ''bp2'') (VString ''lb-missing'')))
   \<and> FrontdoorSettings example_health_probe
     = Inr (Some (BackendPoolHealthProbeNotFound (VString ''bp1'') (VString ''hp-missing'')))
   \<and> checkBackendPool [] [] (mkBackendPool ''bp1'' ''lb-missing'' ''hp-missing'') = Inr None
   \<and> FrontdoorSettings example_no_settings = Inr None"
proof -
  let ?rules = "[mkRoutingRule ''rr1'' [''fe1''] [] [mkForwarding ''bp1'']]"
  let ?feps = "[mkFrontendEndpoint ''fe1'' False []]"
  let ?bp1 = "mkBackendPool ''bp1'' ''lb1'' ''hp1''"
  let ?bp2 = "mkBackendPool ''bp2'' ''lb-missing'' ''hp-missing''"
  let ?bp = "mkBackendPool ''bp1'' ''lb-missing'' ''hp-missing''"
  let ?lbs = "[mkSettings ''lb1'']"
  let ?hps = "[mkSettings ''hp1'']"
  have s1: "sections example_load_balancing ?rules ?feps [?bp1, ?bp2] ?lbs ?hps"
    unfolding example_load_balancing_def by (rule sections_mkConfig)
  have s2: "sections example_health_probe ?rules ?feps [?bp] [] ?hps"
    unfolding example_health_probe_def by (rule sections_mkConfig)
  have s3: "sections example_no_settings ?rules ?feps [?bp] [] []"
    unfolding example_no_settings_def by (rule sections_mkConfig)
  have f: "field ?bp2 ''load_balancing_name'' = VString ''lb-missing''"
      "field ?bp2 ''health_probe_name'' = VString ''hp-missing''"
      "field ?bp2 ''name'' = VString ''bp2''"
      "field ?bp ''load_balancing_name'' = VString ''lb-missing''"
      "field ?bp ''health_probe_name'' = VString ''hp-missing''"
      "field ?bp ''name'' = VString ''bp1''"
    by (simp_all add: mkBackendPool_def field_def index_def)
  have m: "list_all isMap ?lbs" "list_all isMap ?hps" "list_all isMap []"
    by (simp_all add: mkSettings_def)
  have n: "VString ''lb-missing'' \<notin> names ?lbs" "VString ''hp-missing'' \<notin> names ?hps"
    by (simp_all add: names_def mkSettings_def field_def index_def)
  have r1: "forEach (checkRoutingRule ?feps [?bp1, ?bp2]) ?rules = Inr None"
    by code_simp
  have r2: "forEach (checkRoutingRule ?feps [?bp]) ?rules = Inr None"
    by code_simp
  have p1: "forEach (checkBackendPool ?lbs ?hps) [?bp1] = Inr None"
    by code_simp
  have ok: "FrontdoorSettings example_no_settings = Inr None"
    by code_simp
  from backend_pool_settings [OF s1 _ f(1,2) m(1,2), of "[?bp1]" "[]"] r1 p1 n f(3)
       backend_pool_settings [OF s2 _ f(4,5) m(3,2), of "[]" "[]"] r2 n f(6)
       backend_pool_settings [OF s3 _ f(4,5) m(3,3), of "[]" "[]"] ok
  show ?thesis by simp
qed

text \<open>
  Claim C4. For every frontend endpoint, the check of the endpoint fails with the
  invalid-TLS-state error when a \<^verbatim>\<open>custom_https_configuration\<close> block is present while
  \<^verbatim>\<open>custom_https_provisioning_enabled\<close> is false, and with the missing-configuration-block
  error when no such block is present while it is true, each naming the endpoint. A
  configuration with such an endpoint is never accepted, and the error is the verdict of
  the validation when the loop reaches the endpoint (every routing rule, every backend pool
  and every endpoint declared before it pass).
\<close>

theorem custom_https_state:
  assumes "sections d rules feps pools lbs hps"
    and "feps = pre @ fe # post"
    and "field fe ''custom_https_provisioning_enabled'' = VBool b"
    and "field fe ''custom_https_configuration'' = VList c"
  shows "(c \<noteq> [] \<and> \<not> b \<longrightarrow>
            checkFrontendEndpoint fe = Inr (Some (CustomHttpsNotEnabled (field fe ''name'')))
            \<and> FrontdoorSettings d \<noteq> Inr None
            \<and> (forEach (checkRoutingRule feps pools) rules = Inr None
                 \<and> forEach (checkBackendPool lbs hps) pools = Inr None
                 \<and> forEach checkFrontendEndpoint pre = Inr None \<longrightarrow>
                 FrontdoorSettings d = Inr (Some (CustomHttpsNotEnabled (field fe ''name'')))))
         \<and> (c = [] \<and> b \<longrightarrow>
            checkFrontendEndpoint fe = Inr (Some (CustomHttpsUndefined (field fe ''name'')))
            \<and> FrontdoorSettings d \<noteq> Inr None
            \<and> (forEach (checkRoutingRule feps pools) rules = Inr None
                 \<and> forEach (checkBackendPool lbs hps) pools = Inr None
                 \<and> forEach checkFrontendEndpoint pre = Inr None \<longrightarrow>
                 FrontdoorSettings d = Inr (Some (CustomHttpsUndefined (field fe ''name'')))))
         \<and> kind_of (CustomHttpsNotEnabled (field fe ''name'')) = InvalidTlsState
         \<and> kind_of (CustomHttpsUndefined (field fe ''name'')) = MissingConfigurationBlock"
proof -
  note endpoint = checkFrontendEndpoint_fields [OF assms(3,4)]
  have disabled: "checkFrontendEndpoint fe = Inr (Some (CustomHttpsNotEnabled (field fe ''name'')))"
    if "c \<noteq> []" and "\<not> b"
    unfolding endpoint using that by (simp split: list.splits)
  have undefined: "checkFrontendEndpoint fe = Inr (Some (CustomHttpsUndefined (field fe ''name'')))"
    if "c = []" and "b"
    unfolding endpoint using that by simp
  have rejected: "FrontdoorSettings d \<noteq> Inr None" if "checkFrontendEndpoint fe = Inr (Some e)" for e
    using assms(2) that
    by (intro FrontdoorSettings_not_pass_endpoint [OF assms(1), of fe]) simp_all
  have reach: "FrontdoorSettings d = Inr (Some e)"
    if "checkFrontendEndpoint fe = Inr (Some e)"
      and "forEach (checkRoutingRule feps pools) rules = Inr None"
      and "forEach (checkBackendPool lbs hps) pools = Inr None"
      and "forEach checkFrontendEndpoint pre = Inr None" for e
    using that
    by (intro FrontdoorSettings_endpoint_error [OF assms(1) _ _ assms(2)])
       (simp_all add: forEach_pass_iff)
  from rejected reach disabled undefined show ?thesis
    by (simp only: kind_of.simps) blast
qed

theorem custom_https_state_witness:
  "FrontdoorSettings example_tls_disabled = Inr (Some (CustomHttpsNotEnabled (VString ''fe2'')))
   \<and> FrontdoorSettings example_tls_undefined = Inr (Some (CustomHttpsUndefined (VString ''fe1'')))"
proof -
  let ?rules = "[mkRoutingRule ''rr1'' [''fe1''] [] [mkForwarding ''bp1'']]"
  let ?pools = "[mkBackendPool ''bp1'' ''lb1'' ''hp1'']"
  let ?lbs = "[mkSettings ''lb1'']"
  let ?hps = "[mkSettings ''hp1'']"
  let ?fe1 = "mkFrontendEndpoint ''fe1'' False []"
  let ?fe2 = "mkFrontendEndpoint ''fe2'' False [mkCustomHttps ''FrontDoor'' [] [] []]"
  let ?fe3 = "mkFrontendEndpoint ''fe3'' True []"
  let ?fe = "mkFrontendEndpoint ''fe1'' True []"
  have s1: "sections example_tls_disabled ?rules [?fe1, ?fe2, ?fe3] ?pools ?lbs ?hps"
    unfolding example_tls_disabled_def by (rule sections_mkConfig)
  have s2: "sections example_tls_undefined ?rules [?fe] ?pools ?lbs ?hps"
    unfolding example_tls_undefined_def by (rule sections_mkConfig)
  have f: "field ?fe2 ''custom_https_provisioning_enabled'' = VBool False"
      "field ?fe2 ''custom_https_configuration'' = VList [mkCustomHttps ''FrontDoor'' [] [] []]"
      "field ?fe2 ''name'' = VString ''fe2''"
      "field ?fe ''custom_https_provisioning_enabled'' = VBool True"
      "field ?fe ''custom_https_configuration'' = VList []"
      "field ?fe ''name'' = VString ''fe1''"
    by (simp_all add: mkFrontendEndpoint_def field_def index_def)
  have r1: "forEach (checkRoutingRule [?fe1, ?fe2, ?fe3] ?pools) ?rules = Inr None"
    by code_simp
  have r2: "forEach (checkRoutingRule [?fe] ?pools) ?rules = Inr None"
    by code_simp
  have p: "forEach (checkBackendPool ?lbs ?hps) ?pools = Inr None"
    by code_simp
  have e: "forEach checkFrontendEndpoint [?fe1] = Inr None"
    by code_simp
  from custom_https_state [OF s1 _ f(1,2), of "[?fe1]" "[?fe3]"] r1 p e f(3)
       custom_https_state [OF s2 _ f(4,5), of "[]" "[]"] r2 p f(6)
  show ?thesis by simp
qed

text \<open>
  Claim C3. Take a frontend endpoint with \<^verbatim>\<open>custom_https_provisioning_enabled\<close> true and
  a \<^verbatim>\<open>custom_https_configuration\<close> block whose three key-vault fields are strings. If
  \<^verbatim>\<open>certificate_source\<close> is \<^verbatim>\<open>AzureKeyVault\<close> and one of the three is empty, the check of
  the endpoint fails with the incomplete-TLS-config error; if \<^verbatim>\<open>certificate_source\<close> is
  anything else and one of the three is non-empty, it fails with the
  extraneous-TLS-config error; each names the endpoint. A configuration with such an
  endpoint is never accepted, and the error is the verdict of the validation when the loop
  reaches the endpoint (every routing rule, every backend pool and every endpoint declared
  before it pass).
\<close>

theorem key_vault_fields:
  assumes "sections d rules feps pools lbs hps"
    and "feps = pre @ fe # post"
    and "field fe ''custom_https_provisioning_enabled'' = VBool True"
    and "field fe ''custom_https_configuration'' = VList (h # more)"
    and "field h ''azure_key_vault_certificate_secret_name'' = VString a"
    and "field h ''azure_key_vault_certificate_secret_version'' = VString b"
    and "field h ''azure_key_vault_certificate_vault_id'' = VString c"
  shows "(field h ''certificate_source'' = VString ''AzureKeyVault''
            \<and> (a = [] \<or> b = [] \<or> c = []) \<longrightarrow>
            checkFrontendEndpoint fe = Inr (Some (KeyVaultValuesRequired (field fe ''name'')))
            \<and> FrontdoorSettings d \<noteq> Inr None
            \<and> (forEach (checkRoutingRule feps pools) rules = Inr None
                 \<and> forEach (checkBackendPool lbs hps) pools = Inr None
                 \<and> forEach checkFrontendEndpoint pre = Inr None \<longrightarrow>
                 FrontdoorSettings d = Inr (Some (KeyVaultValuesRequired (field fe ''name'')))))
         \<and> (field h ''certificate_source'' \<noteq> VString ''AzureKeyVault''
              \<and> (a \<noteq> [] \<or> b \<noteq> [] \<or> c \<noteq> []) \<longrightarrow>
            checkFrontendEndpoint fe = Inr (Some (KeyVaultValuesForbidden (field fe ''name'')))
            \<and> FrontdoorSettings d \<noteq> Inr None
            \<and> (forEach (checkRoutingRule feps pools) rules = Inr None
                 \<and> forEach (checkBackendPool lbs hps) pools = Inr None
                 \<and> forEach checkFrontendEndpoint pre = Inr None \<longrightarrow>
                 FrontdoorSettings d = Inr (Some (KeyVaultValuesForbidden (field fe ''name'')))))
         \<and> kind_of (KeyVaultValuesRequired (field fe ''name'')) = IncompleteTlsConfig
         \<and> kind_of (KeyVaultValuesForbidden (field fe ''name'')) = ExtraneousTlsConfig"
proof -
  have endpoint: "checkFrontendEndpoint fe = checkCustomHttps (field fe ''name'') h"
    by (simp add: checkFrontendEndpoint_fields [OF assms(3,4)])
  note https = checkCustomHttps_fields [OF assms(5,6,7)]
  have rejected: "FrontdoorSettings d \<noteq> Inr None" if "checkFrontendEndpoint fe = Inr (Some e)" for e
    using assms(2) that
    by (intro FrontdoorSettings_not_pass_endpoint [OF assms(1), of fe]) simp_all
  have reach: "FrontdoorSettings d = Inr (Some e)"
    if "checkFrontendEndpoint fe = Inr (Some e)"
      and "forEach (checkRoutingRule feps pools) rules = Inr None"
      and "forEach (checkBackendPool lbs hps) pools = Inr None"
      and "forEach checkFrontendEndpoint pre = Inr None" for e
    using that
    by (intro FrontdoorSettings_endpoint_error [OF assms(1) _ _ assms(2)])
       (simp_all add: forEach_pass_iff)
  have required: "checkFrontendEndpoint fe = Inr (Some (KeyVaultValuesRequired (field fe ''name'')))"
    if "field h ''certificate_source'' = VString ''AzureKeyVault''" and "a = [] \<or> b = [] \<or> c = []"
    unfolding endpoint https using that by simp
  have forbidden: "checkFrontendEndpoint fe = Inr (Some (KeyVaultValuesForbidden (field fe ''name'')))"
    if "field h ''certificate_source'' \<noteq> VString ''AzureKeyVault''" and "a \<noteq> [] \<or> b \<noteq> [] \<or> c \<noteq> []"
    unfolding endpoint https using that by simp
  from rejected reach required forbidden show ?thesis
    by (simp only: kind_of.simps) blast
qed

theorem key_vault_fields_witness:
  "FrontdoorSettings example3 = Inr (Some (KeyVaultValuesRequired (VString ''fe1'')))
   \<and> FrontdoorSettings example_tls_extraneous = Inr (Some (KeyVaultValuesForbidden (VString ''fe1'')))"
proof -
  let ?rules = "[mkRoutingRule ''rr1'' [''fe1''] [] [mkForwarding ''bp1'']]"
  let ?pools = "[mkBackendPool ''bp1'' ''lb1'' ''hp1'']"
  let ?lbs = "[mkSettings ''lb1'']"
  let ?hps = "[mkSettings ''hp1'']"
  let ?h1 = "mkCustomHttps ''AzureKeyVault'' [] ''v1'' ''vault-id''"
  let ?h2 = "mkCustomHttps ''FrontDoor'' [] ''v1'' []"
  let ?fe1 = "mkFrontendEndpoint ''fe1'' True [?h1]"
  let ?fe2 = "mkFrontendEndpoint ''fe1'' True [?h2]"
  have s1: "sections example3 ?rules [?fe1] ?pools ?lbs ?hps"
    unfolding example3_def by (rule sections_mkConfig)
  have s2: "sections example_tls_extraneous ?rules [?fe2] ?pools ?lbs ?hps"
    unfolding example_tls_extraneous_def by (rule sections_mkConfig)
  have f1: "field ?fe1 ''custom_https_provisioning_enabled'' = VBool True"
      "field ?fe1 ''custom_https_configuration'' = VList [?h1]"
      "field ?h1 ''azure_key_vault_certificate_secret_name'' = VString []"
      "field ?h1 ''azure_key_vault_certificate_secret_version'' = VString ''v1''"
      "field ?h1 ''azure_key_vault_certificate_vault_id'' = VString ''vault-id''"
    by (simp_all add: mkFrontendEndpoint_def mkCustomHttps_def field_def index_def)
  have f2: "field ?fe2 ''custom_https_provisioning_enabled'' = VBool True"
      "field ?fe2 ''custom_https_configuration'' = VList [?h2]"
      "field ?h2 ''azure_key_vault_certificate_secret_name'' = VString []"
      "field ?h2 ''azure_key_vault_certificate_secret_version'' = VString ''v1''"
      "field ?h2 ''azure_key_vault_certificate_vault_id'' = VString []"
    by (simp_all add: mkFrontendEndpoint_def mkCustomHttps_def field_def index_def)
  have g: "field ?h1 ''certificate_source'' = VString ''AzureKeyVault''"
      "field ?h2 ''certificate_source'' \<noteq> VString ''AzureKeyVault''"
      "field ?fe1 ''name'' = VString ''fe1''" "field ?fe2 ''name'' = VString ''fe1''"
    by (simp_all add: mkFrontendEndpoint_def mkCustomHttps_def field_def index_def)
  have r1: "forEach (checkRoutingRule [?fe1] ?pools) ?rules = Inr None"
    by code_simp
  have r2: "forEach (checkRoutingRule [?fe2] ?pools) ?rules = Inr None"
    by code_simp
  have p: "forEach (checkBackendPool ?lbs ?hps) ?pools = Inr None"
    by code_simp
  from key_vault_fields [OF s1 _ f1, of "[]" "[]"] g(1,3) r1 p
       key_vault_fields [OF s2 _ f2, of "[]" "[]"] g(2,4) r2 p
  show ?thesis by simp
qed




text \<open>
  Claim C10. No lookup asks for unique names. Each of the four lookups (the rule's
  \<^verbatim>\<open>frontend_endpoints\<close>, \<^verbatim>\<open>backend_pool_name\<close>, \<^verbatim>\<open>load_balancing_name\<close>,
  \<^verbatim>\<open>health_probe_name\<close>) succeeds exactly when some entry of the target collection has the
  name, however many entries have it. Validation accepts exactly when the endpoint
  collection is non-empty and every rule, pool and endpoint passes its own check; the check
  of a rule and of a pool sees the referenced collections only through the set of names
  they offer. Hence repeating entries of the referenced collections never turns an
  accepted configuration into a rejected one, or the reverse.
\<close>

theorem name_resolution_without_uniqueness:
  assumes "wfConfig d" and "wfConfig d'"
    and "sections d rules feps pools lbs hps"
    and "sections d' rules feps' pools' lbs' hps'"
  shows "(\<forall>n. frontendFound n feps = Inr (\<exists>fe\<in>set feps. field fe ''name'' = VString n))
         \<and> (\<forall>n. DoesBackendPoolExists n pools = None
                \<longleftrightarrow> (\<exists>bps\<in>set pools. field bps ''name'' = VString n))
         \<and> (\<forall>n. settingsFound (VString n) lbs = Inr (\<exists>s\<in>set lbs. field s ''name'' = VString n))
         \<and> (\<forall>n. settingsFound (VString n) hps = Inr (\<exists>s\<in>set hps. field s ''name'' = VString n))
         \<and> (FrontdoorSettings d = Inr None \<longleftrightarrow>
               feps \<noteq> []
               \<and> (\<forall>rr\<in>set rules. checkRoutingRule feps pools rr = Inr None)
               \<and> (\<forall>bps\<in>set pools. checkBackendPool lbs hps bps = Inr None)
               \<and> (\<forall>fe\<in>set feps. checkFrontendEndpoint fe = Inr None))
         \<and> (names feps' = names feps \<and> names pools' = names pools \<longrightarrow>
               (\<forall>rr. checkRoutingRule feps' pools' rr = checkRoutingRule feps pools rr))
         \<and> (names lbs' = names lbs \<and> names hps' = names hps \<longrightarrow>
               (\<forall>bps\<in>set pools. checkBackendPool lbs' hps' bps = checkBackendPool lbs hps bps))
         \<and> (set feps' = set feps \<and> set pools' = set pools
               \<and> names lbs' = names lbs \<and> names hps' = names hps \<longrightarrow>
               (FrontdoorSettings d' = Inr None \<longleftrightarrow> FrontdoorSettings d = Inr None))"
proof -
  note wf = wfConfig_sectionsD [OF assms(1,3)]
  note wf' = wfConfig_sectionsD [OF assms(2,4)]
  note maps = wfFrontendEndpoints_maps [OF wf(2)] wfSettings_maps [OF wf(4)] wfSettings_maps [OF wf(5)]
  note maps' = wfFrontendEndpoints_maps [OF wf'(2)] wfSettings_maps [OF wf'(4)] wfSettings_maps [OF wf'(5)]
  have mem: "v \<in> names xs \<longleftrightarrow> (\<exists>x\<in>set xs. field x ''name'' = v)" for v xs
    by (auto simp: names_def)
  have 1: "frontendFound n feps = Inr (\<exists>fe\<in>set feps. field fe ''name'' = VString n)" for n
    by (simp add: frontendFound_names [OF maps(1)] mem)
  have 2: "DoesBackendPoolExists n pools = None
             \<longleftrightarrow> (\<exists>bps\<in>set pools. field bps ''name'' = VString n)" for n
    by (simp add: DoesBackendPoolExists_names mem)
  have 3: "settingsFound (VString n) lbs = Inr (\<exists>s\<in>set lbs. field s ''name'' = VString n)" for n
    by (simp add: settingsFound_names [OF maps(2)] mem)
  have 4: "settingsFound (VString n) hps = Inr (\<exists>s\<in>set hps. field s ''name'' = VString n)" for n
    by (simp add: settingsFound_names [OF maps(3)] mem)
  note 5 = FrontdoorSettings_pass_iff [OF assms(3)]
  have 6: "checkRoutingRule feps' pools' rr = checkRoutingRule feps pools rr"
    if "names feps' = names feps" and "names pools' = names pools" for rr
    using that by (rule checkRoutingRule_names_cong [OF maps'(1) maps(1)])
  have 7: "checkBackendPool lbs' hps' bps = checkBackendPool lbs hps bps"
    if "names lbs' = names lbs" and "names hps' = names hps" and "bps \<in> set pools" for bps
  proof -
    from wf(3) that(3) have "wfBackendPool bps" by (simp add: list_all_iff)
    then show ?thesis
      using maps'(2) maps(2) that(1) maps'(3) maps(3) that(2)
      by (rule checkBackendPool_names_cong)
  qed
  have 8: "FrontdoorSettings d' = Inr None \<longleftrightarrow> FrontdoorSettings d = Inr None"
    if "set feps' = set feps" and "set pools' = set pools"
      and "names lbs' = names lbs" and "names hps' = names hps"
  proof -
    have "feps' = [] \<longleftrightarrow> feps = []"
      using that(1) by (metis set_empty)
    moreover have "checkRoutingRule feps' pools' rr = checkRoutingRule feps pools rr" for rr
      using that(1,2) by (intro 6 names_cong_set)
    moreover have "checkBackendPool lbs' hps' bps = checkBackendPool lbs hps bps"
      if "bps \<in> set pools" for bps
      using that \<open>names lbs' = names lbs\<close> \<open>names hps' = names hps\<close> by (intro 7)
    ultimately show ?thesis
      unfolding FrontdoorSettings_pass_iff [OF assms(3)] FrontdoorSettings_pass_iff [OF assms(4)]
      using that(1,2) by simp
  qed
  from 1 2 3 4 5 6 7 8 show ?thesis by blast
qed

theorem name_resolution_without_uniqueness_witness:
  "FrontdoorSettings example_duplicates = Inr None
   \<and> frontendFound ''fe1'' [mkFrontendEndpoint ''fe1'' False [], mkFrontendEndpoint ''fe1'' False []]
       = Inr True"
proof -
  let ?rules = "[mkRoutingRule ''rr1'' [''fe1''] [] [mkForwarding ''bp1'']]"
  let ?fe = "mkFrontendEndpoint ''fe1'' False []"
  let ?bp = "mkBackendPool ''bp1'' ''lb1'' ''hp1''"
  let ?lb = "mkSettings ''lb1''"
  let ?hp = "mkSettings ''hp1''"
  have w: "wfConfig example1" "wfConfig example_duplicates"
    by code_simp+
  have s: "sections example1 ?rules [?fe] [?bp] [?lb] [?hp]"
    unfolding example1_def by (rule sections_mkConfig)
  have s': "sections example_duplicates ?rules [?fe, ?fe] [?bp, ?bp] [?lb, ?lb] [?hp, ?hp, ?hp]"
    unfolding example_duplicates_def by (rule sections_mkConfig)
  have e: "set [?fe, ?fe] = set [?fe]" "set [?bp, ?bp] = set [?bp]"
      "names [?lb, ?lb] = names [?lb]" "names [?hp, ?hp, ?hp] = names [?hp]"
    by (simp_all add: names_def)
  have ok: "FrontdoorSettings example1 = Inr None"
    by code_simp
  have n: "\<exists>fe\<in>set [?fe, ?fe]. field fe ''name'' = VString ''fe1''"
    by (simp add: mkFrontendEndpoint_def field_def index_def)
  from name_resolution_without_uniqueness [OF w s s'] e ok
    name_resolution_without_uniqueness [OF w(2) w(2) s' s'] n
  show ?thesis by simp
qed

end
